theory Spec2Isabelle
  imports Main "HOL-Library.AList"
begin

section \<open>JavaScript strings\<close>

text \<open>
  A JavaScript string is modelled as a \<^typ>\<open>string\<close>. \<open>str_includes\<close> is
  \<open>String.prototype.includes\<close>: the argument occurs somewhere as a contiguous run.
\<close>

fun startsWith :: "string \<Rightarrow> string \<Rightarrow> bool" where
  "startsWith s [] = True"
| "startsWith [] (p # ps) = False"
| "startsWith (c # cs) (p # ps) = (c = p \<and> startsWith cs ps)"

fun str_includes :: "string \<Rightarrow> string \<Rightarrow> bool" where
  "str_includes [] sub = (sub = [])"
| "str_includes (c # cs) sub = (startsWith (c # cs) sub \<or> str_includes cs sub)"

section \<open>The authenticator (src/src/auth.ts)\<close>

subsection \<open>State\<close>

text \<open>
  \<open>AuthState\<close> of types.ts. An absent (\<open>undefined\<close>) field is \<open>None\<close>.
\<close>

record AuthState =
  token :: "string option"
  expiresAt :: "int option"
  isAuthenticated :: bool

record cookie =
  cookie_name :: string
  cookie_value :: string

text \<open>The record that \<open>saveCachedToken\<close> writes to the cache file.\<close>

record cached_token =
  access_token :: string
  cookies :: "cookie list"
  cache_expiresAt :: int

text \<open>
  The errors that \<open>ensureAuthenticated\<close> can reject with: the three classes that the
  catch block of \<open>authenticate\<close> rethrows as they are, the wrapper
  \<open>AuthenticationError\<close> for every other cause, and the plain \<open>Error\<close>
  "Authentication failed - no token received".
\<close>

datatype auth_error =
    AuthenticationTimeoutError
  | CertificateLoadError
  | BrowserNotFoundError
  | AuthenticationError
  | NoTokenReceived

text \<open>What went wrong inside the try block of \<open>authenticate\<close>.\<close>

datatype login_failure =
    TimedOut
  | CertificateUnreadable
  | BrowserMissing
  | OtherFailure

datatype promise_state = Pending | Fulfilled | Rejected auth_error

text \<open>
  Where one call of \<open>ensureAuthenticated\<close> stands. The function suspends at two places:
  the \<open>await\<close> of the single-flight guard (line 59) and the \<open>await\<close> of the login it
  started itself (line 69).
\<close>

datatype caller_pc =
    NotCalled
  | AwaitGuard nat
  | AwaitOwn nat
  | Returned string
  | Threw auth_error

text \<open>
  The authenticator object together with what it reads from outside: the cache file, the
  clock (\<open>Date.now()\<close>, in milliseconds) and \<open>config.maxJwtAgeH\<close>. Promises are
  numbered in the order in which \<open>authenticate\<close> is called; \<open>flows_started\<close> counts the
  calls of \<open>authenticate\<close> that got past the cached token and began the browser login
  ("Starting SAP authentication flow...").
\<close>

record authenticator =
  authState :: AuthState
  authPromise :: "nat option"
  promise :: "nat \<Rightarrow> promise_state"
  next_promise :: nat
  caller :: "nat \<Rightarrow> caller_pc"
  token_cache :: "cached_token option"
  clock :: int
  maxJwtAgeH :: int
  flows_started :: nat

definition unauthenticated :: AuthState where
  "unauthenticated = \<lparr>token = None, expiresAt = None, isAuthenticated = False\<rparr>"

definition bufferMs :: int where
  "bufferMs = 5 * 60 * 1000"

text \<open>\<open>isTokenValid\<close>: \<open>!token\<close> holds for an absent and for an empty string,
  \<open>!expiresAt\<close> for an absent number and for 0.\<close>

definition isTokenValid :: "int \<Rightarrow> AuthState \<Rightarrow> bool" where
  "isTokenValid now st =
     (case token st of
        None \<Rightarrow> False
      | Some t \<Rightarrow>
          (case expiresAt st of
             None \<Rightarrow> False
           | Some e \<Rightarrow> if t = [] \<or> e = 0 then False else now < e - bufferMs))"

definition isTokenValidFromCache :: "int \<Rightarrow> cached_token \<Rightarrow> bool" where
  "isTokenValidFromCache now c =
     (if access_token c = [] \<or> cache_expiresAt c = 0 then False
      else now < cache_expiresAt c - bufferMs)"

subsection \<open>\<open>authenticate\<close>\<close>

text \<open>
  \<open>authenticate\<close> up to its first suspension (lines 290 to 309). A cached token that is
  still valid is adopted and the promise is fulfilled with no browser; otherwise the
  browser login begins and the promise stays pending until the login ends.
\<close>

definition authenticate_begin :: "authenticator \<Rightarrow> authenticator \<times> nat" where
  "authenticate_begin s =
     (let p = next_promise s in
      case token_cache s of
        Some c \<Rightarrow>
          if isTokenValidFromCache (clock s) c
          then (s\<lparr>authState := \<lparr>token = Some (access_token c),
                                  expiresAt = Some (cache_expiresAt c),
                                  isAuthenticated = True\<rparr>,
                    promise := (promise s)(p := Fulfilled),
                    next_promise := Suc p\<rparr>, p)
          else (s\<lparr>promise := (promise s)(p := Pending),
                    next_promise := Suc p,
                    flows_started := Suc (flows_started s)\<rparr>, p)
      | None \<Rightarrow>
          (s\<lparr>promise := (promise s)(p := Pending),
              next_promise := Suc p,
              flows_started := Suc (flows_started s)\<rparr>, p))"

fun join :: "string \<Rightarrow> string list \<Rightarrow> string" where
  "join sep [] = []"
| "join sep [x] = x"
| "join sep (x # y # ys) = x @ sep @ join sep (y # ys)"

definition cookieString :: "cookie list \<Rightarrow> string" where
  "cookieString cs = join ''; '' (map (\<lambda>c. cookie_name c @ ''='' @ cookie_value c) cs)"

text \<open>
  The end of a browser login that succeeded (lines 547 to 573): the cookies are joined
  into the token, the expiry is computed from the clock, the state is stored and written
  to the cache file (\<open>written\<close> is False when \<open>writeFileSync\<close> throws, which
  \<open>saveCachedToken\<close> only logs).
\<close>

definition authenticate_succeed ::
  "nat \<Rightarrow> cookie list \<Rightarrow> bool \<Rightarrow> authenticator \<Rightarrow> authenticator" where
  "authenticate_succeed p allCookies written s =
     (let e = clock s + maxJwtAgeH s * 60 * 60 * 1000 in
      s\<lparr>authState := \<lparr>token = Some (cookieString allCookies),
                       expiresAt = Some e,
                       isAuthenticated = True\<rparr>,
         token_cache :=
           (if written
            then Some \<lparr>access_token = cookieString allCookies,
                       cookies = allCookies,
                       cache_expiresAt = e\<rparr>
            else token_cache s),
         promise := (promise s)(p := Fulfilled)\<rparr>)"

text \<open>The catch block of \<open>authenticate\<close> (lines 575 to 589).\<close>

fun rethrown :: "login_failure \<Rightarrow> auth_error" where
  "rethrown TimedOut = AuthenticationTimeoutError"
| "rethrown CertificateUnreadable = CertificateLoadError"
| "rethrown BrowserMissing = BrowserNotFoundError"
| "rethrown OtherFailure = AuthenticationError"

definition authenticate_fail :: "nat \<Rightarrow> login_failure \<Rightarrow> authenticator \<Rightarrow> authenticator" where
  "authenticate_fail p cause s =
     s\<lparr>authState := unauthenticated,
        promise := (promise s)(p := Rejected (rethrown cause))\<rparr>"

subsection \<open>\<open>ensureAuthenticated\<close> and \<open>invalidateAuth\<close>\<close>

text \<open>Lines 62 to 69: the validity check, and the start of a login when it fails.\<close>

definition ensure_check :: "nat \<Rightarrow> authenticator \<Rightarrow> authenticator" where
  "ensure_check c s =
     (if isTokenValid (clock s) (authState s)
      then s\<lparr>caller := (caller s)(c := Returned (the (token (authState s))))\<rparr>
      else
        (let (s', p) = authenticate_begin s in
         s'\<lparr>authPromise := Some p, caller := (caller s')(c := AwaitOwn p)\<rparr>))"

text \<open>Lines 56 to 60: with a promise stored, the caller first awaits it.\<close>

definition ensure_enter :: "nat \<Rightarrow> authenticator \<Rightarrow> authenticator" where
  "ensure_enter c s =
     (case authPromise s of
        Some p \<Rightarrow> s\<lparr>caller := (caller s)(c := AwaitGuard p)\<rparr>
      | None \<Rightarrow> ensure_check c s)"

text \<open>Lines 70 to 76, reached only when the awaited login was fulfilled.\<close>

definition ensure_finish :: "nat \<Rightarrow> authenticator \<Rightarrow> authenticator" where
  "ensure_finish c s =
     (let s' = s\<lparr>authPromise := None\<rparr> in
      case token (authState s') of
        None \<Rightarrow> s'\<lparr>caller := (caller s')(c := Threw NoTokenReceived)\<rparr>
      | Some t \<Rightarrow>
          if t = [] then s'\<lparr>caller := (caller s')(c := Threw NoTokenReceived)\<rparr>
          else s'\<lparr>caller := (caller s')(c := Returned t)\<rparr>)"

text \<open>
  A suspended caller continues once the promise it awaits is settled. A rejected promise
  makes the \<open>await\<close> throw, and \<open>ensureAuthenticated\<close> has no handler: the call
  rejects at once, leaving every field as it is.
\<close>

definition resume :: "nat \<Rightarrow> authenticator \<Rightarrow> authenticator option" where
  "resume c s =
     (case caller s c of
        AwaitGuard p \<Rightarrow>
          (case promise s p of
             Pending \<Rightarrow> None
           | Fulfilled \<Rightarrow> Some (ensure_check c s)
           | Rejected e \<Rightarrow> Some (s\<lparr>caller := (caller s)(c := Threw e)\<rparr>))
      | AwaitOwn p \<Rightarrow>
          (case promise s p of
             Pending \<Rightarrow> None
           | Fulfilled \<Rightarrow> Some (ensure_finish c s)
           | Rejected e \<Rightarrow> Some (s\<lparr>caller := (caller s)(c := Threw e)\<rparr>))
      | _ \<Rightarrow> None)"

definition invalidateAuth :: "authenticator \<Rightarrow> authenticator" where
  "invalidateAuth s = s\<lparr>authState := unauthenticated\<rparr>"

subsection \<open>Interleavings\<close>

text \<open>
  The program runs on one thread: a call runs until its next \<open>await\<close>, and then
  another call, the end of a login, or a continuation runs. An interleaving is a list of
  such events; an event that cannot happen in the state it meets gives \<open>None\<close>.
  \<open>Tick d\<close> lets \<open>d\<close> milliseconds pass.
\<close>

datatype event =
    Call nat
  | Resume nat
  | LoginSucceeds nat "cookie list" bool
  | LoginFails nat login_failure
  | InvalidateAuth
  | Tick int

fun step :: "event \<Rightarrow> authenticator \<Rightarrow> authenticator option" where
  "step (Call c) s =
     (case caller s c of NotCalled \<Rightarrow> Some (ensure_enter c s) | _ \<Rightarrow> None)"
| "step (Resume c) s = resume c s"
| "step (LoginSucceeds p cs written) s =
     (if p < next_promise s \<and> promise s p = Pending
      then Some (authenticate_succeed p cs written s) else None)"
| "step (LoginFails p cause) s =
     (if p < next_promise s \<and> promise s p = Pending
      then Some (authenticate_fail p cause s) else None)"
| "step InvalidateAuth s = Some (invalidateAuth s)"
| "step (Tick d) s = (if 0 \<le> d then Some (s\<lparr>clock := clock s + d\<rparr>) else None)"

fun run :: "event list \<Rightarrow> authenticator \<Rightarrow> authenticator option" where
  "run [] s = Some s"
| "run (e # es) s = (case step e s of None \<Rightarrow> None | Some s' \<Rightarrow> run es s')"

text \<open>The logins in flight: the promises of \<open>authenticate\<close> that are still pending.\<close>

definition in_flight :: "authenticator \<Rightarrow> nat list" where
  "in_flight s = filter (\<lambda>p. promise s p = Pending) [0..<next_promise s]"

text \<open>A fresh authenticator: no token, no promise, no cache file.\<close>

definition fresh :: "int \<Rightarrow> int \<Rightarrow> authenticator" where
  "fresh now maxAge =
     \<lparr>authState = unauthenticated,
      authPromise = None,
      promise = (\<lambda>_. Pending),
      next_promise = 0,
      caller = (\<lambda>_. NotCalled),
      token_cache = None,
      clock = now,
      maxJwtAgeH = maxAge,
      flows_started = 0\<rparr>"

subsection \<open>Browser launch (lines 344 to 436 of \<open>authenticate\<close>)\<close>

text \<open>
  \<open>launch attempt\<close> is what the call of \<open>browserLauncher.launch\<close> does in the given
  attempt: it returns a browser or throws an error with a message.
\<close>

datatype launch_outcome = Launched | LaunchThrew string

definition maxRetries :: nat where
  "maxRetries = 3"

definition resource_exhaustion :: "string \<Rightarrow> bool" where
  "resource_exhaustion errorMsg =
     (str_includes errorMsg ''pthread_create'' \<or>
      str_includes errorMsg ''Resource temporarily unavailable'')"

text \<open>
  What the loop did: whether \<open>this.browser\<close> was set, the message of the error thrown
  (if any), the number of calls of \<open>launch\<close>, and the \<open>setTimeout\<close> delays in
  milliseconds, in order.
\<close>

record launch_report =
  launched :: bool
  thrown :: "string option"
  attempts :: nat
  delays :: "nat list"

function launch_loop ::
  "(nat \<Rightarrow> launch_outcome) \<Rightarrow> nat \<Rightarrow> string option \<Rightarrow> nat list \<Rightarrow> launch_report" where
  "launch_loop launch attempt lastError waited =
     (if attempt \<le> maxRetries then
        (case launch attempt of
           Launched \<Rightarrow>
             \<lparr>launched = True, thrown = None, attempts = attempt, delays = waited\<rparr>
         | LaunchThrew errorMsg \<Rightarrow>
             if resource_exhaustion errorMsg \<and> attempt < maxRetries
             then launch_loop launch (attempt + 1) (Some errorMsg)
                    (waited @ [2 ^ attempt * 1000])
             else if attempt \<ge> maxRetries
             then \<lparr>launched = False, thrown = Some errorMsg, attempts = attempt,
                   delays = waited\<rparr>
             else launch_loop launch (attempt + 1) (Some errorMsg) (waited @ [1000]))
      else
        \<lparr>launched = False,
         thrown = Some (''Failed to launch browser after 3 attempts: '' @
                        (case lastError of Some m \<Rightarrow> m | None \<Rightarrow> ''Unknown error'')),
         attempts = attempt - 1, delays = waited\<rparr>)"
  by pat_completeness auto
termination
  by (relation "measure (\<lambda>(launch, attempt, lastError, waited). Suc maxRetries - attempt)")
     auto

definition launch_browser :: "(nat \<Rightarrow> launch_outcome) \<Rightarrow> launch_report" where
  "launch_browser launch = launch_loop launch 1 None []"

declare launch_loop.simps [simp del]

section \<open>JavaScript values\<close>

text \<open>
  What \<open>JSON.parse\<close> returns, and \<open>undefined\<close>. A number is an integer here: only
  whether it is 0 matters below. An object is the list of its own properties, the first
  binding of a key being its value.
\<close>

datatype jsval =
    Undefined
  | Null
  | JBool bool
  | JNum int
  | JStr string
  | JArr "jsval list"
  | JObj "(string \<times> jsval) list"

fun truthy :: "jsval \<Rightarrow> bool" where
  "truthy Undefined = False"
| "truthy Null = False"
| "truthy (JBool b) = b"
| "truthy (JNum n) = (n \<noteq> 0)"
| "truthy (JStr s) = (s \<noteq> [])"
| "truthy (JArr xs) = True"
| "truthy (JObj kvs) = True"

fun nullish :: "jsval \<Rightarrow> bool" where
  "nullish Undefined = True"
| "nullish Null = True"
| "nullish v = False"

text \<open>\<open>a || b || c\<close> is \<open>ors a [b, c]\<close>: the first truthy operand, else the last.\<close>

fun ors :: "jsval \<Rightarrow> jsval list \<Rightarrow> jsval" where
  "ors a [] = a"
| "ors a (b # bs) = (if truthy a then a else ors b bs)"

text \<open>
  \<open>v.k\<close> for a value that is neither \<open>null\<close> nor \<open>undefined\<close> (there the access
  throws, and each use below checks first). None of the keys read below is a property
  of a string, a number, a boolean or an array, so on those the access gives
  \<open>undefined\<close>.
\<close>

fun js_get :: "string \<Rightarrow> jsval \<Rightarrow> jsval" where
  "js_get k (JObj kvs) = (case map_of kvs k of Some v \<Rightarrow> v | None \<Rightarrow> Undefined)"
| "js_get k v = Undefined"

text \<open>\<open>v?.k\<close>\<close>

definition opt_prop :: "string \<Rightarrow> jsval \<Rightarrow> jsval" where
  "opt_prop k v = (if nullish v then Undefined else js_get k v)"

text \<open>
  \<open>String.prototype.trim\<close>, on characters read as Latin-1 code points: tab, line feed,
  vertical tab, form feed, carriage return, space and no-break space are white space.
\<close>

definition is_space :: "char \<Rightarrow> bool" where
  "is_space c =
     (c \<in> set [CHR 0x09, CHR 0x0A, CHR 0x0B, CHR 0x0C, CHR 0x0D, CHR 0x20, CHR 0xA0])"

definition trim :: "string \<Rightarrow> string" where
  "trim s = rev (dropWhile is_space (rev (dropWhile is_space s)))"

definition endsWith :: "string \<Rightarrow> string \<Rightarrow> bool" where
  "endsWith s suffix = startsWith (rev s) (rev suffix)"

definition is_digit :: "char \<Rightarrow> bool" where
  "is_digit c = (c \<in> set ''0123456789'')"

text \<open>The test \<open>/^\d{6,8}$/\<close>.\<close>

definition is_note_id :: "string \<Rightarrow> bool" where
  "is_note_id s = (6 \<le> length s \<and> length s \<le> 8 \<and> list_all is_digit s)"

text \<open>
  The parts of the JavaScript runtime that are taken as given: \<open>JSON.parse\<close> (\<open>None\<close>
  when it throws) and the regular expressions matched against free text (\<open>None\<close> when
  there is no match, else the capture group or the whole match that the code reads):
  \<^item> \<open>cvssScorePattern\<close>: group 1 of \<open>/CVSS(?:\s+Base\s+Score)?[\s:]+(\d+\.?\d*)/i\<close>;
  \<^item> \<open>cvssVectorPattern\<close>: the match of \<open>/CVSS:3\.\d\/[A-Z:\/]+/i\<close>;
  \<^item> \<open>titlePattern\<close>: group 1 of \<open>/<title>(.*?)<\/title>/i\<close>;
  \<^item> \<open>stripSap\<close>: \<open>.replace(/SAP\s*-?\s*/i, '')\<close>;
  \<^item> \<open>bodyPattern\<close>: group 1 of \<open>/<body[^>]*>(.*?)<\/body>/s\<close>;
  \<^item> \<open>componentVersionPattern\<close>: groups 1 and 2 of \<open>/^([A-Z0-9_]+)\s+(\d+)$/\<close>;
  \<^item> \<open>numberPattern\<close>: group 1 of \<open>/(\d+\.?\d*)/\<close>;
  \<^item> \<open>baseScorePattern\<close>: group 1 of
    \<open>/CVSS\s*v?3\.0\s*Base Score\s*[:\s]+(\d+\.?\d*)\s*\/\s*10/i\<close>.
\<close>

record builtins =
  JSON_parse :: "string \<Rightarrow> jsval option"
  cvssScorePattern :: "string \<Rightarrow> string option"
  cvssVectorPattern :: "string \<Rightarrow> string option"
  titlePattern :: "string \<Rightarrow> string option"
  stripSap :: "string \<Rightarrow> string"
  bodyPattern :: "string \<Rightarrow> string option"
  componentVersionPattern :: "string \<Rightarrow> (string \<times> string) option"
  numberPattern :: "string \<Rightarrow> string option"
  baseScorePattern :: "string \<Rightarrow> string option"

datatype js_error =
    TypeError
  | FetchFailed
  | HttpError nat
  | BodyUnreadable
  | PlaywrightExtractionFailed
  | SearchFailed

section \<open>The notes client (src/src/sap-notes-api.ts)\<close>

subsection \<open>Records\<close>

record SoftwareComponentVersion =
  sw_component :: string
  sw_version :: string
  sw_supportPackage :: jsval

text \<open>
  \<open>SapNoteResult\<close> and \<open>SapNoteDetail\<close>. A field that the code fills from a parsed
  response holds whatever value the response had, so it is a \<^typ>\<open>jsval\<close>; \<open>url\<close> is
  always built by a template and is a string.
\<close>

record SapNoteResult =
  id_field :: jsval
  title :: jsval
  summary :: jsval
  language :: jsval
  releaseDate :: jsval
  component :: jsval
  url :: string

record SapNoteDetail = SapNoteResult +
  content :: jsval
  priority :: jsval
  category :: jsval
  cvssScore :: jsval
  cvssVector :: jsval
  affectedVersions :: "SoftwareComponentVersion list option"

record SapNoteSearchResponse =
  results :: "SapNoteResult list"
  totalResults :: nat
  query :: string

definition noteUrl :: "string \<Rightarrow> string" where
  "noteUrl noteId = ''https://launchpad.support.sap.com/#/notes/'' @ noteId"

definition of_match :: "string option \<Rightarrow> jsval" where
  "of_match m = (case m of Some x \<Rightarrow> JStr x | None \<Rightarrow> Undefined)"

subsection \<open>Parsers\<close>

text \<open>\<open>extractCvssFromContent\<close>, on a string.\<close>

definition extractCvssFromContent :: "builtins \<Rightarrow> string \<Rightarrow> jsval \<times> jsval" where
  "extractCvssFromContent B c =
     (of_match (cvssScorePattern B c), of_match (cvssVectorPattern B c))"

text \<open>The same on any value: \<open>content.match\<close> throws a TypeError unless \<open>content\<close> is a
  string.\<close>

definition extractCvssFromValue :: "builtins \<Rightarrow> jsval \<Rightarrow> js_error + jsval \<times> jsval" where
  "extractCvssFromValue B v =
     (case v of JStr c \<Rightarrow> Inr (extractCvssFromContent B c) | _ \<Rightarrow> Inl TypeError)"

text \<open>
  \<open>mapToSapNoteDetail\<close>. The fields found directly in the item override what the
  patterns found in the content.
\<close>

definition mapToSapNoteDetail :: "builtins \<Rightarrow> jsval \<Rightarrow> string \<Rightarrow> js_error + SapNoteDetail" where
  "mapToSapNoteDetail B item noteId =
     (let contentStr = ors (js_get ''Content'' item)
            [js_get ''content'' item, js_get ''Text'' item, js_get ''summary'' item, JStr []] in
      case extractCvssFromValue B contentStr of
        Inl e \<Rightarrow> Inl e
      | Inr (score0, vector0) \<Rightarrow>
          (let directScore = ors (js_get ''CvssScore'' item)
                 [js_get ''cvssScore'' item, js_get ''CVSSScore'' item];
               directVector = ors (js_get ''CvssVector'' item)
                 [js_get ''cvssVector'' item, js_get ''CVSSVector'' item] in
           Inr \<lparr>id_field = ors (js_get ''SapNote'' item)
                   [js_get ''Id'' item, js_get ''id'' item, JStr noteId],
                title = ors (js_get ''Title'' item) [js_get ''title'' item, JStr ''Unknown Title''],
                summary = ors (js_get ''Summary'' item)
                   [js_get ''summary'' item, js_get ''Description'' item,
                    JStr ''No summary available''],
                language = ors (js_get ''Language'' item) [js_get ''language'' item, JStr ''EN''],
                releaseDate = ors (js_get ''ReleaseDate'' item)
                   [js_get ''releaseDate'' item, js_get ''CreationDate'' item, JStr ''Unknown''],
                component = ors (js_get ''Component'' item) [js_get ''component'' item],
                url = noteUrl noteId,
                content = ors contentStr [JStr ''Content not available''],
                priority = ors (js_get ''Priority'' item) [js_get ''priority'' item],
                category = ors (js_get ''Category'' item) [js_get ''category'' item],
                cvssScore = (if truthy directScore then directScore else score0),
                cvssVector = (if truthy directVector then directVector else vector0),
                affectedVersions = None\<rparr>))"

text \<open>\<open>parseHtmlForNoteDetail\<close>: it returns a record for every text.\<close>

definition parseHtmlForNoteDetail :: "builtins \<Rightarrow> string \<Rightarrow> string \<Rightarrow> SapNoteDetail" where
  "parseHtmlForNoteDetail B html noteId =
     (let (score, vector) = extractCvssFromContent B html in
      \<lparr>id_field = JStr noteId,
       title = (case titlePattern B html of
                  Some t \<Rightarrow> JStr (trim (stripSap B t))
                | None \<Rightarrow> JStr (''SAP Note '' @ noteId)),
       summary = JStr ''SAP Note details available at the provided URL'',
       language = JStr ''EN'',
       releaseDate = JStr ''Unknown'',
       component = Undefined,
       url = noteUrl noteId,
       content = JStr ''Please visit the URL for complete note content'',
       priority = Undefined,
       category = Undefined,
       cvssScore = score,
       cvssVector = vector,
       affectedVersions = None\<rparr>)"

text \<open>
  An HTTP response: its status and its text (\<open>None\<close> when \<open>response.text()\<close>
  rejects). \<open>fetch\<close> either throws or gives a response.
\<close>

record http_response =
  status :: nat
  body :: "string option"

datatype fetched = FetchThrew | Fetched http_response

definition ok :: "http_response \<Rightarrow> bool" where
  "ok r = (200 \<le> status r \<and> status r \<le> 299)"

definition baseUrl :: string where
  "baseUrl = ''https://launchpad.support.sap.com''"

definition rawNotesUrl :: string where
  "rawNotesUrl = ''https://me.sap.com/backend/raw/sapnotes''"

definition makeRequest :: "(string \<Rightarrow> fetched) \<Rightarrow> string \<Rightarrow> js_error + http_response" where
  "makeRequest fetch endpoint =
     (case fetch (baseUrl @ endpoint) of
        FetchThrew \<Rightarrow> Inl FetchFailed
      | Fetched response \<Rightarrow>
          if \<not> ok response \<and> status response \<noteq> 404
          then Inl (HttpError (status response))
          else Inr response)"

definition makeRawRequest :: "(string \<Rightarrow> fetched) \<Rightarrow> string \<Rightarrow> js_error + http_response" where
  "makeRawRequest fetch endpoint =
     (case fetch (rawNotesUrl @ endpoint) of
        FetchThrew \<Rightarrow> Inl FetchFailed
      | Fetched response \<Rightarrow>
          if \<not> ok response \<and> status response \<noteq> 404 \<and> status response \<noteq> 302
             \<and> status response \<noteq> 301
          then Inl (HttpError (status response))
          else Inr response)"

text \<open>
  \<open>parseNoteResponse\<close>. A TypeError inside the try (reading \<open>.d\<close> of \<open>null\<close>, or
  \<open>.match\<close> of a content that is no string) is caught, and the text is then read as
  HTML.
\<close>

definition parseNoteResponse ::
  "builtins \<Rightarrow> http_response \<Rightarrow> string \<Rightarrow> js_error + SapNoteDetail option" where
  "parseNoteResponse B response noteId =
     (case body response of
        None \<Rightarrow> Inl BodyUnreadable
      | Some responseText \<Rightarrow>
          (let html = parseHtmlForNoteDetail B responseText noteId in
           case JSON_parse B responseText of
             None \<Rightarrow> Inr (Some html)
           | Some jsonData \<Rightarrow>
               if nullish jsonData then Inr (Some html)
               else if truthy (js_get ''d'' jsonData)
               then (case mapToSapNoteDetail B (js_get ''d'' jsonData) noteId of
                       Inr note \<Rightarrow> Inr (Some note)
                     | Inl e \<Rightarrow> Inr (Some html))
               else Inr (Some html)))"

definition redirectStub :: "string \<Rightarrow> SapNoteDetail" where
  "redirectStub noteId =
     \<lparr>id_field = JStr noteId,
      title = JStr (''SAP Note '' @ noteId),
      summary = JStr ''Note found via raw API - full content requires browser access'',
      language = JStr ''EN'',
      releaseDate = JStr ''Unknown'',
      component = Undefined,
      url = noteUrl noteId,
      content = JStr (''This SAP Note exists but its content requires browser navigation to access.''
        @ [CHR 0x0A, CHR 0x0A] @ ''To view the complete note content:'' @ [CHR 0x0A]
        @ ''1. Visit: https://launchpad.support.sap.com/#/notes/'' @ noteId @ [CHR 0x0A]
        @ ''2. Or access through: https://me.sap.com with your SAP credentials''
        @ [CHR 0x0A, CHR 0x0A]
        @ ''The note was successfully located but content extraction requires additional authentication steps.''),
      priority = Undefined,
      category = Undefined,
      cvssScore = Undefined,
      cvssVector = Undefined,
      affectedVersions = None\<rparr>"

text \<open>\<open>parseRawNoteDetail\<close>\<close>

definition parseRawNoteDetail ::
  "builtins \<Rightarrow> http_response \<Rightarrow> string \<Rightarrow> js_error + SapNoteDetail option" where
  "parseRawNoteDetail B response noteId =
     (case body response of
        None \<Rightarrow> Inl BodyUnreadable
      | Some responseText \<Rightarrow>
          (let afterTry =
                 (if (str_includes responseText ''fragmentAfterLogin'' \<or>
                      str_includes responseText ''document.cookie'') \<and> is_note_id noteId
                  then Some (redirectStub noteId)
                  else Some (parseHtmlForNoteDetail B responseText noteId)) in
           case JSON_parse B responseText of
             None \<Rightarrow> Inr afterTry
           | Some jsonData \<Rightarrow>
               if truthy jsonData \<and>
                  truthy (ors (js_get ''SapNote'' jsonData)
                            [js_get ''id'' jsonData, js_get ''noteId'' jsonData])
               then
                 (let content = ors (js_get ''Content'' jsonData)
                        [js_get ''content'' jsonData, js_get ''Text'' jsonData,
                         js_get ''LongText'' jsonData, js_get ''Html'' jsonData,
                         JStr ''Note content available at URL''] in
                  case extractCvssFromValue B content of
                    Inl e \<Rightarrow> Inr afterTry
                  | Inr (score0, vector0) \<Rightarrow>
                      (let directScore = ors (js_get ''CvssScore'' jsonData)
                             [js_get ''cvssScore'' jsonData, js_get ''CVSSScore'' jsonData];
                           directVector = ors (js_get ''CvssVector'' jsonData)
                             [js_get ''cvssVector'' jsonData, js_get ''CVSSVector'' jsonData] in
                       Inr (Some
                         \<lparr>id_field = ors (js_get ''SapNote'' jsonData)
                            [js_get ''id'' jsonData, js_get ''noteId'' jsonData, JStr noteId],
                          title = ors (js_get ''Title'' jsonData)
                            [js_get ''title'' jsonData, js_get ''ShortText'' jsonData,
                             JStr (''SAP Note '' @ noteId)],
                          summary = ors (js_get ''Summary'' jsonData)
                            [js_get ''summary'' jsonData, js_get ''Abstract'' jsonData,
                             js_get ''abstract'' jsonData, JStr ''SAP Note details''],
                          language = ors (js_get ''Language'' jsonData)
                            [js_get ''language'' jsonData, JStr ''EN''],
                          releaseDate = ors (js_get ''ReleaseDate'' jsonData)
                            [js_get ''releaseDate'' jsonData, js_get ''CreationDate'' jsonData,
                             JStr ''Unknown''],
                          component = ors (js_get ''Component'' jsonData)
                            [js_get ''component'' jsonData],
                          url = noteUrl noteId,
                          content = content,
                          priority = ors (js_get ''Priority'' jsonData)
                            [js_get ''priority'' jsonData],
                          category = ors (js_get ''Category'' jsonData)
                            [js_get ''category'' jsonData, js_get ''Type'' jsonData],
                          cvssScore = (if truthy directScore then directScore else score0),
                          cvssVector = (if truthy directVector then directVector else vector0),
                          affectedVersions = None\<rparr>)))
               else Inr afterTry))"

text \<open>
  \<open>extractSoftwareComponents\<close>. An error inside the loop (an item that is \<open>null\<close>, a
  \<open>SoftwareComponentVersion\<close> that is no string) is caught outside the loop: the function
  returns the versions pushed so far.
\<close>

fun collectVersions :: "builtins \<Rightarrow> jsval list \<Rightarrow> SoftwareComponentVersion list" where
  "collectVersions B [] = []"
| "collectVersions B (item # items) =
     (if nullish item then []
      else
        (case ors (js_get ''SoftwareComponentVersion'' item) [JStr []] of
           JStr componentVersion \<Rightarrow>
             (case componentVersionPattern B componentVersion of
                Some (c, v) \<Rightarrow>
                  \<lparr>sw_component = c, sw_version = v,
                   sw_supportPackage = ors (js_get ''SupportPackage'' item) [JStr []]\<rparr>
                  # collectVersions B items
              | None \<Rightarrow> collectVersions B items)
         | _ \<Rightarrow> []))"

definition extractSoftwareComponents :: "builtins \<Rightarrow> jsval \<Rightarrow> SoftwareComponentVersion list" where
  "extractSoftwareComponents B sapNote =
     (case opt_prop ''Items'' (js_get ''SupportPackage'' sapNote) of
        JArr items \<Rightarrow> collectVersions B items
      | _ \<Rightarrow> [])"

subsection \<open>Severity data from the Launchpad page\<close>

text \<open>
  What the browser page answers while \<open>extractCvssFromPage\<close> runs. Each field is the
  outcome of one call that the function makes:
  \<^item> \<open>currentUrl\<close>: \<open>page.url()\<close>;
  \<^item> \<open>navigated\<close>: \<open>page.goto\<close> and the wait after it return; \<open>recovered\<close>: the wait in
    the handler of a failed navigation returns;
  \<^item> \<open>tabVisible sel\<close>: \<open>isVisible\<close> of the selector (false when it fails);
    \<open>tabClicked sel\<close>: the click and the wait after it return;
  \<^item> \<open>probeBodyText\<close>, \<open>scoreLabelText\<close>, \<open>scoreCellText\<close>, \<open>scoreBodyText\<close>: the
    texts read by \<open>textContent\<close> (\<open>None\<close> for \<open>null\<close>);
  \<^item> \<open>metricRow name\<close>: the table row of the named metric.
\<close>

datatype row_outcome = RowNotVisible | RowThrew | RowCells "string list"

record cvss_page =
  currentUrl :: string
  navigated :: bool
  recovered :: bool
  tabVisible :: "string \<Rightarrow> bool"
  tabClicked :: "string \<Rightarrow> bool"
  probeBodyText :: "string option"
  scoreLabelText :: "string option"
  scoreCellText :: "string option"
  scoreBodyText :: "string option"
  metricRow :: "string \<Rightarrow> row_outcome"

definition cvssTabSelectors :: "string list" where
  "cvssTabSelectors =
     [''text=CVSS'',
      ''[role=\"tab\"]:has-text(\"CVSS\")'',
      ''button:has-text(\"CVSS\")'',
      ''a:has-text(\"CVSS\")'',
      ''.sapMITBText:has-text(\"CVSS\")'',
      ''.sapMITBFilter:has-text(\"CVSS\")'',
      ''div[role=\"tab\"]:has-text(\"CVSS\")'',
      ''.sapUiIconTabHeaderText:has-text(\"CVSS\")'']"

text \<open>The loop over the selectors: a click that throws is caught and the next selector
  is tried.\<close>

fun findCvssTab :: "cvss_page \<Rightarrow> string list \<Rightarrow> bool" where
  "findCvssTab page [] = False"
| "findCvssTab page (selector # rest) =
     (if tabVisible page selector
      then (if tabClicked page selector then True else findCvssTab page rest)
      else findCvssTab page rest)"

text \<open>A metric: its key, its name in the table, and its map from the long form shown to
  the code, in the order of \<open>Object.entries\<close>.\<close>

type_synonym metric = "string \<times> string \<times> (string \<times> string) list"

definition metrics :: "metric list" where
  "metrics =
     [(''AV'', ''Attack Vector'',
         [(''Network'', ''N''), (''Adjacent'', ''A''), (''Local'', ''L''), (''Physical'', ''P'')]),
      (''AC'', ''Attack Complexity'', [(''Low'', ''L''), (''High'', ''H'')]),
      (''PR'', ''Privileges Required'', [(''None'', ''N''), (''Low'', ''L''), (''High'', ''H'')]),
      (''UI'', ''User Interaction'', [(''None'', ''N''), (''Required'', ''R'')]),
      (''S'', ''Scope'', [(''Unchanged'', ''U''), (''Changed'', ''C'')]),
      (''C'', ''Confidentiality'', [(''None'', ''N''), (''Low'', ''L''), (''High'', ''H'')]),
      (''I'', ''Integrity'', [(''None'', ''N''), (''Low'', ''L''), (''High'', ''H'')]),
      (''A'', ''Availability'', [(''None'', ''N''), (''Low'', ''L''), (''High'', ''H'')])]"

text \<open>The inner loop over the entries of the map: the first long form that the value
  includes wins.\<close>

fun mapValue :: "string \<Rightarrow> (string \<times> string) list \<Rightarrow> string option" where
  "mapValue v [] = None"
| "mapValue v ((longForm, shortForm) # entries) =
     (if str_includes v longForm then Some shortForm else mapValue v entries)"

text \<open>The body of the loop over the metrics, for one metric: the code that it stores, if
  any.\<close>

definition metricCode :: "cvss_page \<Rightarrow> metric \<Rightarrow> string option" where
  "metricCode page m =
     (case metricRow page (fst (snd m)) of
        RowCells cells \<Rightarrow>
          if length cells \<ge> 2 then mapValue (trim (cells ! 1)) (snd (snd m)) else None
      | _ \<Rightarrow> None)"

fun collectComponents ::
  "cvss_page \<Rightarrow> metric list \<Rightarrow> (string \<times> string) list \<Rightarrow> (string \<times> string) list" where
  "collectComponents page [] vectorComponents = vectorComponents"
| "collectComponents page (m # ms) vectorComponents =
     collectComponents page ms
       (case metricCode page m of
          Some shortForm \<Rightarrow> AList.update (fst m) shortForm vectorComponents
        | None \<Rightarrow> vectorComponents)"

text \<open>\<open>${vectorComponents.K}\<close> in the template: a missing key prints as
  \<open>undefined\<close>.\<close>

definition shown :: "(string \<times> string) list \<Rightarrow> string \<Rightarrow> string" where
  "shown vectorComponents k =
     (case map_of vectorComponents k of Some v \<Rightarrow> v | None \<Rightarrow> ''undefined'')"

definition buildVector :: "(string \<times> string) list \<Rightarrow> string option" where
  "buildVector vectorComponents =
     (if length (map fst vectorComponents) \<ge> 8
      then Some (''CVSS:3.0/AV:'' @ shown vectorComponents ''AV''
                 @ ''/AC:'' @ shown vectorComponents ''AC''
                 @ ''/PR:'' @ shown vectorComponents ''PR''
                 @ ''/UI:'' @ shown vectorComponents ''UI''
                 @ ''/S:'' @ shown vectorComponents ''S''
                 @ ''/C:'' @ shown vectorComponents ''C''
                 @ ''/I:'' @ shown vectorComponents ''I''
                 @ ''/A:'' @ shown vectorComponents ''A'')
      else None)"

text \<open>The three score strategies, in order; a result that is \<open>null\<close> or empty passes
  to the next one.\<close>

definition scoreStrategies :: "builtins \<Rightarrow> cvss_page \<Rightarrow> string option list" where
  "scoreStrategies B page =
     [case scoreLabelText page of
        Some text \<Rightarrow> if text = [] then None else numberPattern B text
      | None \<Rightarrow> None,
      case scoreCellText page of
        Some scoreCell \<Rightarrow> if scoreCell = [] then None else numberPattern B scoreCell
      | None \<Rightarrow> None,
      case scoreBodyText page of
        Some pageText \<Rightarrow> if pageText = [] then None else baseScorePattern B pageText
      | None \<Rightarrow> None]"

fun firstScore :: "string option list \<Rightarrow> string option" where
  "firstScore [] = None"
| "firstScore (None # rest) = firstScore rest"
| "firstScore (Some score # rest) = (if score = [] then firstScore rest else Some score)"

text \<open>\<open>extractCvssFromPage\<close>: the score and the vector, each \<open>None\<close> for
  \<open>undefined\<close>.\<close>

definition extractCvssFromPage ::
  "builtins \<Rightarrow> cvss_page \<Rightarrow> string \<Rightarrow> string option \<times> string option" where
  "extractCvssFromPage B page noteId =
     (if \<not> str_includes (currentUrl page) ''launchpad.support.sap.com/#/notes''
         \<and> \<not> navigated page \<and> \<not> recovered page
      then (None, None)
      else if \<not> findCvssTab page cvssTabSelectors \<and>
              \<not> (case probeBodyText page of
                   Some bodyText \<Rightarrow> bodyText \<noteq> [] \<and> str_includes bodyText ''CVSS''
                 | None \<Rightarrow> False)
      then (None, None)
      else (firstScore (scoreStrategies B page),
            buildVector (collectComponents page metrics [])))"

text \<open>\<open>enhanceWithCvssFromTab\<close>\<close>

definition enhanceWithCvssFromTab ::
  "builtins \<Rightarrow> SapNoteDetail \<Rightarrow> cvss_page \<Rightarrow> string \<Rightarrow> SapNoteDetail" where
  "enhanceWithCvssFromTab B noteDetail page noteId =
     (if truthy (cvssScore noteDetail) \<and> truthy (cvssVector noteDetail) then noteDetail
      else
        (let (score, vector) = extractCvssFromPage B page noteId in
         if truthy (of_match score) \<or> truthy (of_match vector)
         then noteDetail\<lparr>cvssScore := of_match score, cvssVector := of_match vector\<rparr>
         else noteDetail))"

subsection \<open>\<open>getNoteWithPlaywright\<close>\<close>

text \<open>
  What the disposable browser answers during one call of \<open>getNoteWithPlaywright\<close>:
  \<^item> \<open>opened\<close>: the launch, the new context, the cookies and the new page all succeed;
  \<^item> \<open>navigation\<close>: \<open>page.goto\<close> throws, gives no response, or gives a response that is
    \<open>ok()\<close> or not;
  \<^item> \<open>loaded\<close>: the wait, \<open>page.content()\<close> and \<open>page.title()\<close> return, with
    \<open>pageContent\<close> the content;
  \<^item> \<open>bodyText\<close>: \<open>textContent\<close> of the body throws, or gives a text or \<open>null\<close>;
  \<^item> \<open>domNote\<close>: \<open>page.evaluate\<close> throws, or tells for the title, the content and the
    summary element whether the page has it, with its trimmed text (empty for none);
  \<^item> \<open>cvssView\<close>: the answers to \<open>extractCvssFromPage\<close>, if it is called.
\<close>

datatype nav_outcome = NavThrew | NavNoResponse | NavResponse bool

datatype body_outcome = BodyThrew | BodyText "string option"

datatype dom_outcome = EvaluateThrew | Extracted "string option" "string option" "string option"

record playwright_page =
  opened :: bool
  navigation :: nav_outcome
  loaded :: bool
  pageContent :: string
  bodyText :: body_outcome
  domNote :: dom_outcome
  cvssView :: cvss_page

text \<open>The branch for the response of the notes service, \<open>jsonData.Response.SAPNote\<close>
  (lines 1764 to 1817, and again lines 1859 to 1912).\<close>

definition structuredNote ::
  "builtins \<Rightarrow> cvss_page \<Rightarrow> jsval \<Rightarrow> string \<Rightarrow> js_error + SapNoteDetail" where
  "structuredNote B page sapNote noteId =
     (let header = ors (js_get ''Header'' sapNote) [JObj []];
          content = ors (opt_prop ''value'' (js_get ''LongText'' sapNote))
                      [JStr ''No content available''];
          cvss = js_get ''CVSS'' sapNote;
          score1 = (if truthy cvss then opt_prop ''value'' (js_get ''CVSS_Score'' cvss)
                    else Undefined);
          vector1 = (if truthy cvss then opt_prop ''vectorValue'' (js_get ''CVSS_Vector'' cvss)
                     else Undefined);
          extracted =
            (if \<not> truthy score1 \<or> \<not> truthy vector1
             then (case extractCvssFromValue B content of
                     Inl e \<Rightarrow> Inl e
                   | Inr (s, v) \<Rightarrow> Inr (ors score1 [s], ors vector1 [v]))
             else Inr (score1, vector1)) in
      case extracted of
        Inl e \<Rightarrow> Inl e
      | Inr (score, vector) \<Rightarrow>
          (let affected = extractSoftwareComponents B sapNote;
               noteDetail =
                 \<lparr>id_field = ors (opt_prop ''value'' (js_get ''Number'' header)) [JStr noteId],
                  title = ors (opt_prop ''value'' (js_get ''Title'' sapNote))
                            [JStr (''SAP Note '' @ noteId)],
                  summary = ors (opt_prop ''value'' (js_get ''Type'' header))
                              [JStr ''SAP Knowledge Base Article''],
                  language = ors (opt_prop ''value'' (js_get ''Language'' header)) [JStr ''EN''],
                  releaseDate = ors (opt_prop ''value'' (js_get ''ReleasedOn'' header))
                                  [JStr ''Unknown''],
                  component = ors (opt_prop ''value'' (js_get ''SAPComponentKeyText'' header))
                                [opt_prop ''value'' (js_get ''SAPComponentKey'' header)],
                  url = noteUrl noteId,
                  content = content,
                  priority = opt_prop ''value'' (js_get ''Priority'' header),
                  category = opt_prop ''value'' (js_get ''Category'' header),
                  cvssScore = score,
                  cvssVector = vector,
                  affectedVersions = (if length affected > 0 then Some affected else None)\<rparr> in
           if \<not> truthy score \<or> \<not> truthy vector
           then Inr (enhanceWithCvssFromTab B noteDetail page noteId)
           else Inr noteDetail))"

text \<open>The branch for any other JSON (lines 1821 to 1840, and lines 1916 to 1935). The
  two copies differ in the fields tried for the content and the summary and in the
  defaults; \<open>fromBodyText\<close> tells the first copy from the second.\<close>

definition genericNote ::
  "builtins \<Rightarrow> cvss_page \<Rightarrow> bool \<Rightarrow> jsval \<Rightarrow> string \<Rightarrow> js_error + SapNoteDetail" where
  "genericNote B page fromBodyText jsonData noteId =
     (let content =
            (if fromBodyText
             then ors (js_get ''Content'' jsonData)
                    [js_get ''content'' jsonData, js_get ''Text'' jsonData,
                     js_get ''LongText'' jsonData, js_get ''Html'' jsonData,
                     js_get ''Description'' jsonData,
                     JStr ''Raw note data retrieved successfully'']
             else ors (js_get ''Content'' jsonData)
                    [js_get ''content'' jsonData, js_get ''Text'' jsonData,
                     js_get ''LongText'' jsonData, js_get ''Html'' jsonData,
                     JStr ''Note content available'']) in
      case extractCvssFromValue B content of
        Inl e \<Rightarrow> Inl e
      | Inr (score, vector) \<Rightarrow>
          Inr (enhanceWithCvssFromTab B
            \<lparr>id_field = ors (js_get ''SapNote'' jsonData) [js_get ''id'' jsonData, JStr noteId],
             title = ors (js_get ''Title'' jsonData)
                       [js_get ''title'' jsonData, js_get ''ShortText'' jsonData,
                        JStr (''SAP Note '' @ noteId)],
             summary =
               (if fromBodyText
                then ors (js_get ''Summary'' jsonData)
                       [js_get ''summary'' jsonData, js_get ''Abstract'' jsonData,
                        js_get ''Description'' jsonData,
                        JStr ''Note content extracted via Playwright'']
                else ors (js_get ''Summary'' jsonData)
                       [js_get ''summary'' jsonData, js_get ''Abstract'' jsonData,
                        JStr ''Note extracted via Playwright'']),
             language = ors (js_get ''Language'' jsonData) [JStr ''EN''],
             releaseDate = ors (js_get ''ReleaseDate'' jsonData)
                             [js_get ''CreationDate'' jsonData, JStr ''Unknown''],
             component = js_get ''Component'' jsonData,
             url = noteUrl noteId,
             content = content,
             priority = js_get ''Priority'' jsonData,
             category = ors (js_get ''Category'' jsonData) [js_get ''Type'' jsonData],
             cvssScore = score,
             cvssVector = vector,
             affectedVersions = None\<rparr> page noteId))"

text \<open>
  One of the two try blocks, from the text in which JSON is looked for. \<open>Some\<close> is the
  record that the block returns; \<open>None\<close> means that the function goes on after the
  block, because the text is not in braces or because something in the block threw.
\<close>

definition noteFromJsonText ::
  "builtins \<Rightarrow> cvss_page \<Rightarrow> bool \<Rightarrow> string \<Rightarrow> string \<Rightarrow> SapNoteDetail option" where
  "noteFromJsonText B page fromBodyText text noteId =
     (let trimmed = trim text in
      if startsWith trimmed ''{'' \<and> endsWith trimmed ''}''
      then
        (case JSON_parse B trimmed of
           None \<Rightarrow> None
         | Some jsonData \<Rightarrow>
             if nullish jsonData then None
             else
               (case (if truthy (js_get ''Response'' jsonData) \<and>
                         truthy (js_get ''SAPNote'' (js_get ''Response'' jsonData))
                      then structuredNote B page
                             (js_get ''SAPNote'' (js_get ''Response'' jsonData)) noteId
                      else genericNote B page fromBodyText jsonData noteId) of
                  Inl e \<Rightarrow> None
                | Inr note \<Rightarrow> Some note))
      else None)"

text \<open>The record built from the elements of the page (lines 1985 to 2005).\<close>

definition noteFromDom ::
  "builtins \<Rightarrow> cvss_page \<Rightarrow> string option \<Rightarrow> string option \<Rightarrow> string option \<Rightarrow> string
     \<Rightarrow> SapNoteDetail option" where
  "noteFromDom B page titleElement contentElement summaryElement noteId =
     (if titleElement \<noteq> None \<or> contentElement \<noteq> None \<or> summaryElement \<noteq> None
      then
        (let text = (\<lambda>el. case el of Some t \<Rightarrow> t | None \<Rightarrow> []);
             content = (if text contentElement = []
                        then ''Note content extracted via browser automation''
                        else text contentElement);
             (score, vector) = extractCvssFromContent B content in
         Some (enhanceWithCvssFromTab B
           \<lparr>id_field = JStr noteId,
            title = JStr (if text titleElement = [] then ''SAP Note '' @ noteId
                          else text titleElement),
            summary = JStr (if text summaryElement = [] then ''Extracted via Playwright''
                            else text summaryElement),
            language = JStr ''EN'',
            releaseDate = JStr ''Unknown'',
            component = Undefined,
            url = noteUrl noteId,
            content = JStr content,
            priority = Undefined,
            category = Undefined,
            cvssScore = score,
            cvssVector = vector,
            affectedVersions = None\<rparr> page noteId))
      else None)"

definition getNoteWithPlaywright ::
  "builtins \<Rightarrow> playwright_page \<Rightarrow> string \<Rightarrow> js_error + SapNoteDetail option" where
  "getNoteWithPlaywright B pw noteId =
     (if \<not> opened pw then Inl PlaywrightExtractionFailed
      else if navigation pw \<noteq> NavResponse True then Inl PlaywrightExtractionFailed
      else if \<not> loaded pw then Inl PlaywrightExtractionFailed
      else
        (case (case bodyText pw of
                 BodyText (Some t) \<Rightarrow>
                   if t = [] then None
                   else noteFromJsonText B (cvssView pw) True t noteId
               | _ \<Rightarrow> None) of
           Some note \<Rightarrow> Inr (Some note)
         | None \<Rightarrow>
             (case (case bodyPattern B (pageContent pw) of
                      Some inner \<Rightarrow>
                        if inner = [] then None
                        else noteFromJsonText B (cvssView pw) False inner noteId
                    | None \<Rightarrow> None) of
                Some note \<Rightarrow> Inr (Some note)
              | None \<Rightarrow>
                  (case domNote pw of
                     EvaluateThrew \<Rightarrow> Inl PlaywrightExtractionFailed
                   | Extracted t c s \<Rightarrow> Inr (noteFromDom B (cvssView pw) t c s noteId)))))"

subsection \<open>\<open>getNote\<close>\<close>

text \<open>What is outside during one call of \<open>getNote\<close>: the browser, and \<open>fetch\<close> by
  URL.\<close>

record note_env =
  playwright :: playwright_page
  fetch :: "string \<Rightarrow> fetched"

definition fallbackEndpoints :: "string \<Rightarrow> string list" where
  "fallbackEndpoints noteId =
     [''/services/odata/svt/snogwscorr/Notes('' @ [CHR 0x27] @ noteId @ [CHR 0x27]
        @ '')?$format=json'',
      ''/services/odata/svt/snogwscorr/KnowledgeBaseEntries?$filter=SapNote eq ''
        @ [CHR 0x27] @ noteId @ [CHR 0x27] @ ''&$format=json'',
      ''/support/notes/'' @ noteId]"

text \<open>The loop over the fallback endpoints: an endpoint that throws is logged and the
  next one is tried.\<close>

fun tryEndpoints :: "builtins \<Rightarrow> note_env \<Rightarrow> string list \<Rightarrow> string \<Rightarrow> SapNoteDetail option" where
  "tryEndpoints B env [] noteId = None"
| "tryEndpoints B env (endpoint # rest) noteId =
     (case makeRequest (fetch env) endpoint of
        Inl e \<Rightarrow> tryEndpoints B env rest noteId
      | Inr response \<Rightarrow>
          (case parseNoteResponse B response noteId of
             Inr (Some note) \<Rightarrow> Some note
           | _ \<Rightarrow> tryEndpoints B env rest noteId))"

text \<open>The raw notes API over HTTP (lines 218 to 230).\<close>

definition rawNote :: "builtins \<Rightarrow> note_env \<Rightarrow> string \<Rightarrow> SapNoteDetail option" where
  "rawNote B env noteId =
     (case makeRawRequest (fetch env) (''/Detail?q='' @ noteId @ ''&t=E&isVTEnabled=false'') of
        Inl e \<Rightarrow> None
      | Inr rawResponse \<Rightarrow>
          if ok rawResponse
          then (case parseRawNoteDetail B rawResponse noteId of
                  Inr (Some note) \<Rightarrow> Some note
                | _ \<Rightarrow> None)
          else None)"

text \<open>
  \<open>getNote\<close>. Every call in its body that can throw stands in a try block of its own,
  so the handler of the outer try, which would rethrow, is never entered: the result is
  a record or \<open>null\<close>.
\<close>

definition getNote :: "builtins \<Rightarrow> note_env \<Rightarrow> string \<Rightarrow> js_error + SapNoteDetail option" where
  "getNote B env noteId =
     (case getNoteWithPlaywright B (playwright env) noteId of
        Inr (Some note) \<Rightarrow> Inr (Some note)
      | _ \<Rightarrow>
          (case rawNote B env noteId of
             Some note \<Rightarrow> Inr (Some note)
           | None \<Rightarrow> Inr (tryEndpoints B env (fallbackEndpoints noteId) noteId)))"

subsection \<open>\<open>searchNotes\<close>\<close>

text \<open>
  What is outside during one call of \<open>searchNotes\<close>: the outcome of the primary Coveo
  search (the token, the POST and the parsing of its answer), the outcome of
  \<open>searchViaInternalAPI\<close>, and what \<open>getNote\<close> meets.
\<close>

record search_env =
  primarySearch :: "js_error + SapNoteSearchResponse"
  internalSearch :: "js_error + SapNoteResult list"
  noteEnv :: note_env

definition searchNotes ::
  "builtins \<Rightarrow> search_env \<Rightarrow> string \<Rightarrow> nat \<Rightarrow> js_error + SapNoteSearchResponse" where
  "searchNotes B env q maxResults =
     (case primarySearch env of
        Inr response \<Rightarrow> Inr response
      | Inl coveoError \<Rightarrow>
          (let afterDirect =
                 (case internalSearch env of
                    Inr fallbackResults \<Rightarrow>
                      if length fallbackResults > 0
                      then Inr \<lparr>results = fallbackResults,
                                totalResults = length fallbackResults,
                                query = q\<rparr>
                      else Inl SearchFailed
                  | Inl internalError \<Rightarrow> Inl SearchFailed) in
           if is_note_id (trim q)
           then
             (let noteId = trim q in
              case getNote B (noteEnv env) noteId of
                Inr (Some note) \<Rightarrow>
                  Inr \<lparr>results =
                         [\<lparr>id_field = JStr noteId,
                           title = title note,
                           summary = summary note,
                           language = language note,
                           releaseDate = releaseDate note,
                           component = component note,
                           url = url note\<rparr>],
                       totalResults = 1,
                       query = q\<rparr>
              | _ \<Rightarrow> afterDirect)
           else afterDirect))"

subsection \<open>Where an identifier can come from\<close>

text \<open>
  The JSON documents that one call of \<open>getNote\<close> can parse, and in each the identifier
  fields that the path reading it prefers to the identifier requested.

  In the browser, a try block of \<open>getNoteWithPlaywright\<close> parses a text (the text of the
  body, then the body found in the content of the page) once it is trimmed and stands in
  braces. From such a document the envelope of the notes service gives the note number of
  its header; any other document gives \<open>SapNote\<close> or \<open>id\<close>.
\<close>

definition docs_of :: "jsval option \<Rightarrow> jsval list" where
  "docs_of parsed = (case parsed of Some jsonData \<Rightarrow> [jsonData] | None \<Rightarrow> [])"

definition bracedJson :: "builtins \<Rightarrow> string \<Rightarrow> jsval option" where
  "bracedJson B t =
     (let trimmed = trim t in
      if startsWith trimmed ''{'' \<and> endsWith trimmed ''}'' then JSON_parse B trimmed
      else None)"

definition browserDocs :: "builtins \<Rightarrow> playwright_page \<Rightarrow> jsval list" where
  "browserDocs B pw =
     (case bodyText pw of
        BodyText (Some t) \<Rightarrow> docs_of (bracedJson B t)
      | _ \<Rightarrow> [])
     @ (case bodyPattern B (pageContent pw) of
          Some inner \<Rightarrow> docs_of (bracedJson B inner)
        | None \<Rightarrow> [])"

definition browserIds :: "jsval \<Rightarrow> jsval list" where
  "browserIds jsonData =
     (if truthy (js_get ''Response'' jsonData) \<and>
         truthy (js_get ''SAPNote'' (js_get ''Response'' jsonData))
      then [opt_prop ''value'' (js_get ''Number''
              (ors (js_get ''Header'' (js_get ''SAPNote'' (js_get ''Response'' jsonData)))
                 [JObj []]))]
      else [js_get ''SapNote'' jsonData, js_get ''id'' jsonData])"

text \<open>
  Over HTTP, the document is the text of the response that \<open>fetch\<close> gives for a URL.
  \<open>parseRawNoteDetail\<close> reads \<open>SapNote\<close>, \<open>id\<close> or \<open>noteId\<close> from it;
  \<open>parseNoteResponse\<close> reads \<open>SapNote\<close>, \<open>Id\<close> or \<open>id\<close> of its entry \<open>d\<close>.
\<close>

definition responseDocs :: "builtins \<Rightarrow> (string \<Rightarrow> fetched) \<Rightarrow> string \<Rightarrow> jsval list" where
  "responseDocs B fetching address =
     (case fetching address of
        Fetched response \<Rightarrow>
          (case body response of
             Some responseText \<Rightarrow> docs_of (JSON_parse B responseText)
           | None \<Rightarrow> [])
      | FetchThrew \<Rightarrow> [])"

definition rawIds :: "jsval \<Rightarrow> jsval list" where
  "rawIds jsonData =
     [js_get ''SapNote'' jsonData, js_get ''id'' jsonData, js_get ''noteId'' jsonData]"

definition odataIds :: "jsval \<Rightarrow> jsval list" where
  "odataIds jsonData =
     [js_get ''SapNote'' (js_get ''d'' jsonData), js_get ''Id'' (js_get ''d'' jsonData),
      js_get ''id'' (js_get ''d'' jsonData)]"

definition endpointIds :: "builtins \<Rightarrow> note_env \<Rightarrow> string list \<Rightarrow> jsval list" where
  "endpointIds B env endpoints =
     concat (map (\<lambda>endpoint.
                    concat (map odataIds (responseDocs B (fetch env) (baseUrl @ endpoint))))
                 endpoints)"

text \<open>All of them, for the responses that the call for \<open>noteId\<close> meets in \<open>env\<close>.\<close>

definition responseIds :: "builtins \<Rightarrow> note_env \<Rightarrow> string \<Rightarrow> jsval list" where
  "responseIds B env noteId =
     concat (map browserIds (browserDocs B (playwright env)))
     @ concat (map rawIds
         (responseDocs B (fetch env)
            (rawNotesUrl @ ''/Detail?q='' @ noteId @ ''&t=E&isVTEnabled=false'')))
     @ endpointIds B env (fallbackEndpoints noteId)"

section \<open>Concrete scenarios\<close>

text \<open>
  The inputs at which the properties below are evaluated. Note 2744792 is requested. The
  raw endpoint answers with the JSON envelope of the notes service; in \<open>noteJsonText\<close>
  the envelope carries the note number with leading zeros, a score and a vector; in
  \<open>scoreOnlyJsonText\<close> it carries a score and no vector.
\<close>

definition noteJsonText :: string where
  "noteJsonText =
     ''{\"Response\":{\"SAPNote\":{\"Header\":{\"Number\":{\"value\":\"0002744792\"}},''
     @ ''\"Title\":{\"value\":\"Security update\"},\"LongText\":{\"value\":\"Apply the patch.\"},''
     @ ''\"CVSS\":{\"CVSS_Score\":{\"value\":\"9.8\"},''
     @ ''\"CVSS_Vector\":{\"vectorValue\":\"CVSS:3.0/AV:N/AC:L/PR:N/UI:N/S:U/C:H/I:H/A:H\"}}}}}''"

definition noteJson :: jsval where
  "noteJson =
     JObj [(''Response'', JObj [(''SAPNote'', JObj
       [(''Header'', JObj [(''Number'', JObj [(''value'', JStr ''0002744792'')])]),
        (''Title'', JObj [(''value'', JStr ''Security update'')]),
        (''LongText'', JObj [(''value'', JStr ''Apply the patch.'')]),
        (''CVSS'', JObj
          [(''CVSS_Score'', JObj [(''value'', JStr ''9.8'')]),
           (''CVSS_Vector'', JObj
             [(''vectorValue'', JStr ''CVSS:3.0/AV:N/AC:L/PR:N/UI:N/S:U/C:H/I:H/A:H'')])])])])]"

definition scoreOnlyJsonText :: string where
  "scoreOnlyJsonText =
     ''{\"Response\":{\"SAPNote\":{\"Header\":{\"Number\":{\"value\":\"2744792\"}},''
     @ ''\"Title\":{\"value\":\"Security update\"},\"LongText\":{\"value\":\"Apply the patch.\"},''
     @ ''\"CVSS\":{\"CVSS_Score\":{\"value\":\"9.8\"}}}}}''"

definition scoreOnlyJson :: jsval where
  "scoreOnlyJson =
     JObj [(''Response'', JObj [(''SAPNote'', JObj
       [(''Header'', JObj [(''Number'', JObj [(''value'', JStr ''2744792'')])]),
        (''Title'', JObj [(''value'', JStr ''Security update'')]),
        (''LongText'', JObj [(''value'', JStr ''Apply the patch.'')]),
        (''CVSS'', JObj [(''CVSS_Score'', JObj [(''value'', JStr ''9.8'')])])])])]"

text \<open>
  A runtime that parses the two texts as \<open>JSON.parse\<close> does. The only other text that
  the scenarios hand to it, \<open>Not Found\<close>, is no JSON, and no text that a pattern is
  matched against has a match.
\<close>

definition scenarioRuntime :: builtins where
  "scenarioRuntime =
     \<lparr>JSON_parse = (\<lambda>t. if t = noteJsonText then Some noteJson
                         else if t = scoreOnlyJsonText then Some scoreOnlyJson
                         else None),
      cvssScorePattern = (\<lambda>t. None),
      cvssVectorPattern = (\<lambda>t. None),
      titlePattern = (\<lambda>t. None),
      stripSap = (\<lambda>t. t),
      bodyPattern = (\<lambda>t. None),
      componentVersionPattern = (\<lambda>t. None),
      numberPattern = (\<lambda>t. None),
      baseScorePattern = (\<lambda>t. None)\<rparr>"

text \<open>
  The Launchpad page with a CVSS tab that opens a metric table with the given rows (the
  name of the metric, then the value shown), and with no text that any score strategy
  finds.
\<close>

definition tablePage :: "(string \<times> string) list \<Rightarrow> cvss_page" where
  "tablePage rows =
     \<lparr>currentUrl =
        ''https://me.sap.com/backend/raw/sapnotes/Detail?q=2744792&t=E&isVTEnabled=false'',
      navigated = True,
      recovered = True,
      tabVisible = (\<lambda>selector. selector = ''text=CVSS''),
      tabClicked = (\<lambda>selector. True),
      probeBodyText = None,
      scoreLabelText = None,
      scoreCellText = None,
      scoreBodyText = None,
      metricRow = (\<lambda>name. case map_of rows name of
                              Some v \<Rightarrow> RowCells [name, v]
                            | None \<Rightarrow> RowNotVisible)\<rparr>"

definition sevenRows :: "(string \<times> string) list" where
  "sevenRows =
     [(''Attack Vector'', ''Network''), (''Attack Complexity'', ''Low''),
      (''Privileges Required'', ''None''), (''User Interaction'', ''None''),
      (''Scope'', ''Unchanged''), (''Confidentiality'', ''High''), (''Integrity'', ''High'')]"

definition eightRows :: "(string \<times> string) list" where
  "eightRows = sevenRows @ [(''Availability'', ''High'')]"

text \<open>The disposable browser showing the given text as the body of the raw endpoint.\<close>

definition rawPage :: "string \<Rightarrow> cvss_page \<Rightarrow> playwright_page" where
  "rawPage text view =
     \<lparr>opened = True,
      navigation = NavResponse True,
      loaded = True,
      pageContent = ''<html><head></head><body><pre>'' @ text @ ''</pre></body></html>'',
      bodyText = BodyText (Some text),
      domNote = Extracted None None None,
      cvssView = view\<rparr>"


definition noteShown :: note_env where
  "noteShown =
     \<lparr>playwright = rawPage noteJsonText (tablePage eightRows),
      fetch = (\<lambda>u. FetchThrew)\<rparr>"

definition scoreOnlyShown :: note_env where
  "scoreOnlyShown =
     \<lparr>playwright = rawPage scoreOnlyJsonText (tablePage eightRows),
      fetch = (\<lambda>u. FetchThrew)\<rparr>"

text \<open>No browser can be launched, and every request is answered with status 404 and the
  text \<open>Not Found\<close>.\<close>

definition allNotFound :: note_env where
  "allNotFound =
     \<lparr>playwright = (rawPage [] (tablePage []))\<lparr>opened := False\<rparr>,
      fetch = (\<lambda>u. Fetched \<lparr>status = 404, body = Some ''Not Found''\<rparr>)\<rparr>"

text \<open>The record that the notes client builds in the scenario \<open>allNotFound\<close>.\<close>

definition notFoundDetail :: SapNoteDetail where
  "notFoundDetail =
     \<lparr>id_field = JStr ''2744792'',
      title = JStr ''SAP Note 2744792'',
      summary = JStr ''SAP Note details available at the provided URL'',
      language = JStr ''EN'',
      releaseDate = JStr ''Unknown'',
      component = Undefined,
      url = ''https://launchpad.support.sap.com/#/notes/2744792'',
      content = JStr ''Please visit the URL for complete note content'',
      priority = Undefined,
      category = Undefined,
      cvssScore = Undefined,
      cvssVector = Undefined,
      affectedVersions = None\<rparr>"

definition primaryDown :: search_env where
  "primaryDown =
     \<lparr>primarySearch = Inl FetchFailed,
      internalSearch = Inl FetchFailed,
      noteEnv = noteShown\<rparr>"

definition sessionCookie :: cookie where
  "sessionCookie = \<lparr>cookie_name = ''sid'', cookie_value = ''abc''\<rparr>"

text \<open>The record that the notes client builds in the scenario \<open>noteShown\<close>.\<close>

definition noteShownDetail :: SapNoteDetail where
  "noteShownDetail =
     \<lparr>id_field = JStr ''0002744792'',
      title = JStr ''Security update'',
      summary = JStr ''SAP Knowledge Base Article'',
      language = JStr ''EN'',
      releaseDate = JStr ''Unknown'',
      component = Undefined,
      url = ''https://launchpad.support.sap.com/#/notes/2744792'',
      content = JStr ''Apply the patch.'',
      priority = Undefined,
      category = Undefined,
      cvssScore = JStr ''9.8'',
      cvssVector = JStr ''CVSS:3.0/AV:N/AC:L/PR:N/UI:N/S:U/C:H/I:H/A:H'',
      affectedVersions = None\<rparr>"

text \<open>The record that \<open>getNoteWithPlaywright\<close> assembles in the scenario
  \<open>scoreOnlyShown\<close>, before it is passed to \<open>enhanceWithCvssFromTab\<close>.\<close>

definition scoreOnlyDetail :: SapNoteDetail where
  "scoreOnlyDetail =
     \<lparr>id_field = JStr ''2744792'',
      title = JStr ''Security update'',
      summary = JStr ''SAP Knowledge Base Article'',
      language = JStr ''EN'',
      releaseDate = JStr ''Unknown'',
      component = Undefined,
      url = ''https://launchpad.support.sap.com/#/notes/2744792'',
      content = JStr ''Apply the patch.'',
      priority = Undefined,
      category = Undefined,
      cvssScore = JStr ''9.8'',
      cvssVector = Undefined,
      affectedVersions = None\<rparr>"

declare ors.simps [simp del]

section \<open>Properties of the authenticator\<close>

subsection \<open>Single flight\<close>

text \<open>
  Claim C2: for every interleaving of concurrent calls of \<open>ensureAuthenticated\<close> made
  while no valid credential exists, at most one login is in flight at any time; a
  caller that finds a login in progress awaits it and never starts a second one
  concurrently.

  The code does not keep this. With \<open>maxJwtAgeH = 0\<close> and no cache file, call 0 starts
  login 0 and calls 1 and 2 await it at the guard. The login succeeds, but its token
  expires inside the five-minute buffer, so it is not valid. Call 0 returns it; call 1
  continues after the guard, finds the token invalid and starts login 1; call 2 does the
  same, without looking at \<open>authPromise\<close> again, and starts login 2. Logins 1 and 2 are
  then in flight together.
\<close>

theorem ensureAuthenticated_two_logins_in_flight:
  "map_option (\<lambda>s. (caller s 0, caller s 1, caller s 2, in_flight s, flows_started s))
     (run [Call 0, Call 1, Call 2, LoginSucceeds 0 [sessionCookie] True,
           Resume 0, Resume 1, Resume 2]
        (fresh 1700000000000 0))
   = Some (Returned ''sid=abc'', AwaitOwn 1, AwaitOwn 2, [1, 2], 3)"
  by code_simp

subsection \<open>A failed login\<close>

text \<open>
  Claim C3: a login that fails (for example by a timeout) is fatal for that attempt
  only; the next call of \<open>ensureAuthenticated\<close> starts a fresh login instead of
  raising the stored outcome of the failed one again.

  The code does not keep this. When the login of call 0 times out, the \<open>await\<close> of
  call 0 throws before \<open>authPromise\<close> is reset, so the rejected promise stays stored.
  Call 1, made a minute later, awaits that promise at the guard and is rejected with
  the same timeout error; no second login is started.
\<close>

theorem ensureAuthenticated_failure_is_kept:
  "map_option (\<lambda>s. (caller s 0, caller s 1, authPromise s, flows_started s))
     (run [Call 0, LoginFails 0 TimedOut, Resume 0, Tick 60000, Call 1, Resume 1]
        (fresh 1700000000000 12))
   = Some (Threw AuthenticationTimeoutError, Threw AuthenticationTimeoutError, Some 0, 1)"
  by code_simp

subsection \<open>Invalidation\<close>

text \<open>
  Claim C4: after \<open>invalidateAuth\<close>, the next call of \<open>ensureAuthenticated\<close> forces
  a fresh login; it does not return a credential adopted from cached state without a
  new login.

  The code does not keep this. The login of call 0 writes its token to the cache file;
  \<open>invalidateAuth\<close> clears the state in memory only. Call 1 finds no valid token in
  memory, enters \<open>authenticate\<close>, which adopts the token of the cache file and returns:
  call 1 gets the token of the first login, and one login only was ever started.
\<close>

theorem invalidateAuth_cached_token_returns:
  "map_option (\<lambda>s. (caller s 0, caller s 1, flows_started s, in_flight s))
     (run [Call 0, LoginSucceeds 0 [sessionCookie] True, Resume 0,
           InvalidateAuth, Call 1, Resume 1]
        (fresh 1700000000000 12))
   = Some (Returned ''sid=abc'', Returned ''sid=abc'', 1, [])"
  by code_simp

subsection \<open>Browser launch\<close>

lemma launch_loop_3:
  "launch_loop launch 3 lastError waited =
     (case launch 3 of
        Launched \<Rightarrow> \<lparr>launched = True, thrown = None, attempts = 3, delays = waited\<rparr>
      | LaunchThrew m \<Rightarrow> \<lparr>launched = False, thrown = Some m, attempts = 3, delays = waited\<rparr>)"
  by (subst launch_loop.simps)
     (simp add: maxRetries_def numeral_2_eq_2 numeral_3_eq_3 split: launch_outcome.split)

lemma launch_loop_2:
  "launch_loop launch 2 lastError waited =
     (case launch 2 of
        Launched \<Rightarrow> \<lparr>launched = True, thrown = None, attempts = 2, delays = waited\<rparr>
      | LaunchThrew m \<Rightarrow>
          launch_loop launch 3 (Some m)
            (waited @ [if resource_exhaustion m then 4000 else 1000]))"
  by (subst launch_loop.simps)
     (simp add: maxRetries_def numeral_2_eq_2 numeral_3_eq_3 split: launch_outcome.split)

lemma launch_loop_1:
  "launch_loop launch (Suc 0) lastError waited =
     (case launch (Suc 0) of
        Launched \<Rightarrow> \<lparr>launched = True, thrown = None, attempts = 1, delays = waited\<rparr>
      | LaunchThrew m \<Rightarrow>
          launch_loop launch 2 (Some m)
            (waited @ [if resource_exhaustion m then 2000 else 1000]))"
  by (subst launch_loop.simps)
     (simp add: maxRetries_def numeral_2_eq_2 numeral_3_eq_3 split: launch_outcome.split)

lemma upt_1_2: "[Suc 0..<2] = [Suc 0]"
  by (simp add: numeral_2_eq_2)

lemma upt_1_3: "[Suc 0..<3] = [Suc 0, 2]"
  by (simp add: numeral_2_eq_2 numeral_3_eq_3)

text \<open>
  Claim C5, as the code has it: the browser launch is attempted at most 3 times. After
  a failed attempt \<open>k\<close> that is not the third, the launch is tried again: after
  \<open>2 ^ k\<close> seconds when the error is a resource exhaustion, after 1 second for any
  other error. The attempts before the last one all failed; the launch fails as a whole
  only when the third attempt fails, with the error of that attempt.
\<close>

theorem launch_browser_retries:
  "1 \<le> attempts (launch_browser launch) \<and> attempts (launch_browser launch) \<le> 3
   \<and> delays (launch_browser launch) =
       map (\<lambda>k. case launch k of
                   LaunchThrew m \<Rightarrow> if resource_exhaustion m then 2 ^ k * 1000 else 1000
                 | Launched \<Rightarrow> 0)
           [1..<attempts (launch_browser launch)]
   \<and> (\<forall>k \<in> set [1..<attempts (launch_browser launch)]. launch k \<noteq> Launched)
   \<and> launched (launch_browser launch) = (launch (attempts (launch_browser launch)) = Launched)
   \<and> (\<not> launched (launch_browser launch) \<longrightarrow>
        attempts (launch_browser launch) = 3
        \<and> (\<exists>m. launch 3 = LaunchThrew m \<and> thrown (launch_browser launch) = Some m))"
proof (cases "launch (Suc 0)")
  case Launched
  then show ?thesis by (simp add: launch_browser_def launch_loop_1)
next
  case l1: (LaunchThrew m1)
  show ?thesis
  proof (cases "launch 2")
    case Launched
    with l1 show ?thesis
      by (simp add: launch_browser_def launch_loop_1 launch_loop_2 upt_1_2)
  next
    case l2: (LaunchThrew m2)
    show ?thesis
    proof (cases "launch 3")
      case Launched
      with l1 l2 show ?thesis
        by (simp add: launch_browser_def launch_loop_1 launch_loop_2 launch_loop_3 upt_1_3)
    next
      case (LaunchThrew m3)
      with l1 l2 show ?thesis
        by (simp add: launch_browser_def launch_loop_1 launch_loop_2 launch_loop_3 upt_1_3)
    qed
  qed
qed

text \<open>
  The theorem at a launch whose first attempt fails by resource exhaustion and whose
  other attempts fail because the executable is missing: three attempts, a wait of 2
  seconds and a wait of 1 second, and the error of the third attempt.
\<close>

theorem launch_browser_retries_witness:
  "\<not> launched (launch_browser
        (\<lambda>k. if k = 1 then LaunchThrew ''pthread_create failed''
              else LaunchThrew ''spawn chrome ENOENT''))
   \<and> attempts (launch_browser
        (\<lambda>k. if k = 1 then LaunchThrew ''pthread_create failed''
              else LaunchThrew ''spawn chrome ENOENT'')) = 3
   \<and> delays (launch_browser
        (\<lambda>k. if k = 1 then LaunchThrew ''pthread_create failed''
              else LaunchThrew ''spawn chrome ENOENT'')) = [2000, 1000]
   \<and> thrown (launch_browser
        (\<lambda>k. if k = 1 then LaunchThrew ''pthread_create failed''
              else LaunchThrew ''spawn chrome ENOENT'')) = Some ''spawn chrome ENOENT''"
proof -
  let ?launch = "\<lambda>k::nat. if k = 1 then LaunchThrew ''pthread_create failed''
                          else LaunchThrew ''spawn chrome ENOENT''"
  have failed: "\<not> launched (launch_browser ?launch)"
    by (simp add: launch_browser_def launch_loop_1 launch_loop_2 launch_loop_3)
  have r: "resource_exhaustion ''pthread_create failed''"
    by (simp add: resource_exhaustion_def)
  have n: "\<not> resource_exhaustion ''spawn chrome ENOENT''"
    by (simp add: resource_exhaustion_def)
  from launch_browser_retries [of ?launch] failed r n
  show ?thesis by (simp add: upt_1_3)
qed

text \<open>
  Claim C5 as stated fails twice. An error that is no resource exhaustion is not fatal
  at once: when the first attempt fails because the executable is missing, the code
  waits 1 second and launches again. And no wait of 8 seconds occurs: three failures by
  resource exhaustion give the waits of 2 and 4 seconds, and the third failure is fatal.
\<close>

theorem launch_browser_counterexample:
  "\<not> resource_exhaustion ''spawn chrome ENOENT''
   \<and> attempts (launch_browser
        (\<lambda>k. if k = 1 then LaunchThrew ''spawn chrome ENOENT'' else Launched)) = 2
   \<and> delays (launch_browser
        (\<lambda>k. if k = 1 then LaunchThrew ''spawn chrome ENOENT'' else Launched)) = [1000]
   \<and> launched (launch_browser
        (\<lambda>k. if k = 1 then LaunchThrew ''spawn chrome ENOENT'' else Launched))
   \<and> resource_exhaustion ''pthread_create: Resource temporarily unavailable''
   \<and> delays (launch_browser
        (\<lambda>k. LaunchThrew ''pthread_create: Resource temporarily unavailable''))
       = [2000, 4000]"
  by (simp add: launch_browser_def launch_loop_1 launch_loop_2 launch_loop_3
      resource_exhaustion_def)

section \<open>Properties of the notes client\<close>

lemma getNote_noteShown:
  "getNote scenarioRuntime noteShown ''2744792'' = Inr (Some noteShownDetail)"
  by code_simp

subsection \<open>The link of a record\<close>

lemma enhance_url: "url (enhanceWithCvssFromTab B d page n) = url d"
  by (simp add: enhanceWithCvssFromTab_def split: prod.split)

lemma mapToSapNoteDetail_url:
  "mapToSapNoteDetail B item n = Inr d \<Longrightarrow> url d = noteUrl n"
  by (auto simp: mapToSapNoteDetail_def Let_def split: sum.splits prod.splits)

lemma parseHtml_url: "url (parseHtmlForNoteDetail B html n) = noteUrl n"
  by (simp add: parseHtmlForNoteDetail_def split: prod.split)

lemma parseNoteResponse_url:
  "parseNoteResponse B r n = Inr (Some d) \<Longrightarrow> url d = noteUrl n"
  by (auto simp: parseNoteResponse_def Let_def parseHtml_url mapToSapNoteDetail_url
      split: option.splits sum.splits if_splits)

lemma parseRawNoteDetail_url:
  "parseRawNoteDetail B r n = Inr (Some d) \<Longrightarrow> url d = noteUrl n"
  by (auto simp: parseRawNoteDetail_def Let_def parseHtml_url redirectStub_def
      split: option.splits sum.splits if_splits prod.splits)

lemma structuredNote_url:
  "structuredNote B page sapNote n = Inr d \<Longrightarrow> url d = noteUrl n"
  by (auto simp: structuredNote_def Let_def enhance_url
      split: sum.splits if_splits prod.splits)

lemma genericNote_url:
  "genericNote B page f j n = Inr d \<Longrightarrow> url d = noteUrl n"
  by (auto simp: genericNote_def Let_def enhance_url split: sum.splits prod.splits)

lemma noteFromJsonText_url:
  "noteFromJsonText B page f t n = Some d \<Longrightarrow> url d = noteUrl n"
  by (auto simp: noteFromJsonText_def Let_def structuredNote_url genericNote_url
      split: sum.splits if_splits option.splits)

lemma noteFromDom_url:
  "noteFromDom B page t c s n = Some d \<Longrightarrow> url d = noteUrl n"
  by (auto simp: noteFromDom_def Let_def enhance_url split: if_splits prod.splits)

lemma getNoteWithPlaywright_url:
  "getNoteWithPlaywright B pw n = Inr (Some d) \<Longrightarrow> url d = noteUrl n"
  by (auto simp: getNoteWithPlaywright_def noteFromJsonText_url noteFromDom_url
      split: if_splits option.splits body_outcome.splits dom_outcome.splits)

lemma tryEndpoints_url:
  "tryEndpoints B env eps n = Some d \<Longrightarrow> url d = noteUrl n"
  by (induction eps) (auto simp: parseNoteResponse_url split: sum.splits option.splits)

lemma rawNote_url:
  "rawNote B env n = Some d \<Longrightarrow> url d = noteUrl n"
  by (auto simp: rawNote_def parseRawNoteDetail_url split: sum.splits option.splits if_splits)

text \<open>
  Claim C10: every record that \<open>getNote\<close> returns, on every path of the cascade, has
  as its \<open>url\<close> the Launchpad address followed by the identifier that was requested,
  also where its \<open>id\<close> comes from the parsed response.
\<close>

theorem getNote_url:
  "getNote B env noteId = Inr (Some note) \<Longrightarrow>
     url note = ''https://launchpad.support.sap.com/#/notes/'' @ noteId"
proof -
  assume "getNote B env noteId = Inr (Some note)"
  then have "url note = noteUrl noteId"
    by (auto simp: getNote_def getNoteWithPlaywright_url rawNote_url tryEndpoints_url
        split: sum.splits option.splits)
  then show ?thesis by (simp add: noteUrl_def)
qed

text \<open>In the scenario \<open>noteShown\<close> the record carries the number 0002744792 of the
  response, and its link ends in the 2744792 that was requested.\<close>

theorem getNote_url_witness:
  "getNote scenarioRuntime noteShown ''2744792'' = Inr (Some noteShownDetail)
   \<and> id_field noteShownDetail = JStr ''0002744792''
   \<and> url noteShownDetail = ''https://launchpad.support.sap.com/#/notes/2744792''"
  using getNote_url [OF getNote_noteShown] getNote_noteShown
  by (simp add: noteShownDetail_def)

subsection \<open>The identifier of a record\<close>

lemma ors_snoc:
  "ors a (bs @ [z]) = z \<or> (truthy (ors a (bs @ [z])) \<and> ors a (bs @ [z]) \<in> set (a # bs))"
  by (induction bs arbitrary: a) (auto simp: ors.simps)

lemma ors_1: "ors a [z] = z \<or> (truthy (ors a [z]) \<and> ors a [z] = a)"
  using ors_snoc [of a "[]" z] by simp

lemma ors_2: "ors a [b, z] = z \<or> (truthy (ors a [b, z]) \<and> ors a [b, z] \<in> {a, b})"
  using ors_snoc [of a "[b]" z] by simp

lemma ors_3: "ors a [b, c, z] = z \<or> (truthy (ors a [b, c, z]) \<and> ors a [b, c, z] \<in> {a, b, c})"
  using ors_snoc [of a "[b, c]" z] by simp

text \<open>\<open>idOrigin noteId ids v\<close>: the value is the identifier requested, or it is truthy and
  one of the given identifier fields.\<close>

abbreviation idOrigin :: "string \<Rightarrow> jsval list \<Rightarrow> jsval \<Rightarrow> bool" where
  "idOrigin noteId ids v \<equiv> v = JStr noteId \<or> (truthy v \<and> v \<in> set ids)"

lemma enhance_id: "id_field (enhanceWithCvssFromTab B d page n) = id_field d"
  by (simp add: enhanceWithCvssFromTab_def split: prod.split)

lemma mapToSapNoteDetail_id:
  "mapToSapNoteDetail B item n = Inr d \<Longrightarrow>
     id_field d = ors (js_get ''SapNote'' item) [js_get ''Id'' item, js_get ''id'' item, JStr n]"
  by (auto simp: mapToSapNoteDetail_def Let_def split: sum.splits prod.splits)

lemma parseHtml_id: "id_field (parseHtmlForNoteDetail B html n) = JStr n"
  by (simp add: parseHtmlForNoteDetail_def split: prod.split)

lemma redirectStub_id: "id_field (redirectStub n) = JStr n"
  by (simp add: redirectStub_def)

lemma parseNoteResponse_id:
  assumes "parseNoteResponse B r n = Inr (Some d)"
  shows "idOrigin n
           (concat (map odataIds
              (case body r of Some responseText \<Rightarrow> docs_of (JSON_parse B responseText)
               | None \<Rightarrow> [])))
           (id_field d)"
proof (cases "id_field d = JStr n")
  case True
  then show ?thesis by simp
next
  case False
  with assms obtain src j where b: "body r = Some src" and j: "JSON_parse B src = Some j"
    and m: "mapToSapNoteDetail B (js_get ''d'' j) n = Inr d"
    by (auto simp: parseNoteResponse_def Let_def parseHtml_id
        split: option.splits sum.splits if_splits)
  from mapToSapNoteDetail_id [OF m] False
    ors_3 [of "js_get ''SapNote'' (js_get ''d'' j)" "js_get ''Id'' (js_get ''d'' j)"
              "js_get ''id'' (js_get ''d'' j)" "JStr n"]
  have "truthy (id_field d) \<and> id_field d \<in> set (odataIds j)"
    by (auto simp: odataIds_def)
  with b j show ?thesis by (simp add: docs_of_def)
qed

lemma parseRawNoteDetail_id:
  assumes "parseRawNoteDetail B r n = Inr (Some d)"
  shows "idOrigin n
           (concat (map rawIds
              (case body r of Some responseText \<Rightarrow> docs_of (JSON_parse B responseText)
               | None \<Rightarrow> [])))
           (id_field d)"
proof (cases "id_field d = JStr n")
  case True
  then show ?thesis by simp
next
  case False
  with assms obtain src j where b: "body r = Some src" and j: "JSON_parse B src = Some j"
    and m: "id_field d = ors (js_get ''SapNote'' j) [js_get ''id'' j, js_get ''noteId'' j, JStr n]"
    by (auto simp: parseRawNoteDetail_def Let_def parseHtml_id redirectStub_def
        split: option.splits sum.splits if_splits prod.splits)
  from m False ors_3 [of "js_get ''SapNote'' j" "js_get ''id'' j" "js_get ''noteId'' j" "JStr n"]
  have "truthy (id_field d) \<and> id_field d \<in> set (rawIds j)"
    by (auto simp: rawIds_def)
  with b j show ?thesis by (simp add: docs_of_def)
qed

lemma structuredNote_id:
  "structuredNote B page sapNote n = Inr d \<Longrightarrow>
     id_field d =
       ors (opt_prop ''value'' (js_get ''Number'' (ors (js_get ''Header'' sapNote) [JObj []])))
           [JStr n]"
  by (auto simp: structuredNote_def Let_def enhance_id
      split: sum.splits if_splits prod.splits)

lemma genericNote_id:
  "genericNote B page f j n = Inr d \<Longrightarrow>
     id_field d = ors (js_get ''SapNote'' j) [js_get ''id'' j, JStr n]"
  by (auto simp: genericNote_def Let_def enhance_id split: sum.splits prod.splits)

lemma noteFromJsonText_id:
  assumes "noteFromJsonText B page f t n = Some d"
  shows "idOrigin n (concat (map browserIds (docs_of (bracedJson B t)))) (id_field d)"
proof (cases "id_field d = JStr n")
  case True
  then show ?thesis by simp
next
  case False
  from assms obtain j where j: "bracedJson B t = Some j"
    and m: "(truthy (js_get ''Response'' j) \<and> truthy (js_get ''SAPNote'' (js_get ''Response'' j))
             \<and> structuredNote B page (js_get ''SAPNote'' (js_get ''Response'' j)) n = Inr d)
            \<or> (\<not> (truthy (js_get ''Response'' j) \<and>
                   truthy (js_get ''SAPNote'' (js_get ''Response'' j)))
               \<and> genericNote B page f j n = Inr d)"
    by (auto simp: noteFromJsonText_def bracedJson_def Let_def
        split: option.splits sum.splits if_splits)
  from m have "truthy (id_field d) \<and> id_field d \<in> set (browserIds j)"
  proof
    assume a: "truthy (js_get ''Response'' j) \<and> truthy (js_get ''SAPNote'' (js_get ''Response'' j))
             \<and> structuredNote B page (js_get ''SAPNote'' (js_get ''Response'' j)) n = Inr d"
    then have s: "structuredNote B page (js_get ''SAPNote'' (js_get ''Response'' j)) n = Inr d"
      by simp
    from structuredNote_id [OF s] False a
      ors_1 [of "opt_prop ''value'' (js_get ''Number''
                  (ors (js_get ''Header'' (js_get ''SAPNote'' (js_get ''Response'' j))) [JObj []]))"
                "JStr n"]
    show ?thesis by (auto simp: browserIds_def)
  next
    assume a: "\<not> (truthy (js_get ''Response'' j) \<and>
                   truthy (js_get ''SAPNote'' (js_get ''Response'' j)))
               \<and> genericNote B page f j n = Inr d"
    then have g: "genericNote B page f j n = Inr d" by simp
    from genericNote_id [OF g] False a
      ors_2 [of "js_get ''SapNote'' j" "js_get ''id'' j" "JStr n"]
    show ?thesis by (auto simp: browserIds_def)
  qed
  with j show ?thesis by (simp add: docs_of_def)
qed

lemma noteFromDom_id:
  "noteFromDom B page t c s n = Some d \<Longrightarrow> id_field d = JStr n"
  by (auto simp: noteFromDom_def Let_def enhance_id split: if_splits prod.splits)

lemma getNoteWithPlaywright_id:
  assumes "getNoteWithPlaywright B pw n = Inr (Some d)"
  shows "idOrigin n (concat (map browserIds (browserDocs B pw))) (id_field d)"
proof -
  from assms consider
      (body) t where "bodyText pw = BodyText (Some t)"
        "noteFromJsonText B (cvssView pw) True t n = Some d"
    | (html) inner where "bodyPattern B (pageContent pw) = Some inner"
        "noteFromJsonText B (cvssView pw) False inner n = Some d"
    | (dom) t c s where "noteFromDom B (cvssView pw) t c s n = Some d"
    by (auto simp: getNoteWithPlaywright_def
        split: if_splits option.splits body_outcome.splits dom_outcome.splits)
  then show ?thesis
  proof cases
    case body
    from noteFromJsonText_id [OF body(2)] body(1) show ?thesis
      by (auto simp: browserDocs_def)
  next
    case html
    from noteFromJsonText_id [OF html(2)] html(1) show ?thesis
      by (auto simp: browserDocs_def)
  next
    case dom
    from noteFromDom_id [OF dom] show ?thesis by simp
  qed
qed

lemma tryEndpoints_id:
  "tryEndpoints B env eps n = Some d \<Longrightarrow> idOrigin n (endpointIds B env eps) (id_field d)"
proof (induction eps)
  case Nil
  then show ?case by simp
next
  case (Cons ep eps)
  show ?case
  proof (cases "\<exists>r. makeRequest (fetch env) ep = Inr r \<and> parseNoteResponse B r n = Inr (Some d)")
    case True
    then obtain r where mr: "makeRequest (fetch env) ep = Inr r"
      and pr: "parseNoteResponse B r n = Inr (Some d)" by blast
    from mr have f: "fetch env (baseUrl @ ep) = Fetched r"
      by (auto simp: makeRequest_def split: fetched.splits if_splits)
    from parseNoteResponse_id [OF pr] f show ?thesis
      by (auto simp: endpointIds_def responseDocs_def)
  next
    case False
    with Cons.prems have "tryEndpoints B env eps n = Some d"
      by (auto split: sum.splits option.splits)
    from Cons.IH [OF this] show ?thesis by (auto simp: endpointIds_def)
  qed
qed

lemma rawNote_id:
  assumes "rawNote B env n = Some d"
  shows "idOrigin n
     (concat (map rawIds (responseDocs B (fetch env)
        (rawNotesUrl @ ''/Detail?q='' @ n @ ''&t=E&isVTEnabled=false''))))
     (id_field d)"
proof -
  from assms obtain r where mr: "makeRawRequest (fetch env)
        (''/Detail?q='' @ n @ ''&t=E&isVTEnabled=false'') = Inr r"
    and pr: "parseRawNoteDetail B r n = Inr (Some d)"
    by (auto simp: rawNote_def split: sum.splits option.splits if_splits)
  from mr have f: "fetch env (rawNotesUrl @ ''/Detail?q='' @ n @ ''&t=E&isVTEnabled=false'')
                     = Fetched r"
    by (auto simp: makeRawRequest_def split: fetched.splits if_splits)
  from parseRawNoteDetail_id [OF pr] f show ?thesis
    by (auto simp: responseDocs_def)
qed

lemma getNote_idOrigin:
  assumes "getNote B env noteId = Inr (Some note)"
  shows "idOrigin noteId (responseIds B env noteId) (id_field note)"
proof -
  from assms consider
      (browser) "getNoteWithPlaywright B (playwright env) noteId = Inr (Some note)"
    | (raw) "rawNote B env noteId = Some note"
    | (fallback) "tryEndpoints B env (fallbackEndpoints noteId) noteId = Some note"
    by (auto simp: getNote_def split: sum.splits option.splits)
  then show ?thesis
  proof cases
    case browser
    from getNoteWithPlaywright_id [OF this] show ?thesis by (auto simp: responseIds_def)
  next
    case raw
    from rawNote_id [OF this] show ?thesis by (auto simp: responseIds_def)
  next
    case fallback
    from tryEndpoints_id [OF this] show ?thesis by (auto simp: responseIds_def)
  qed
qed

text \<open>
  Claim C1, as the code has it: the \<open>id\<close> of a record that \<open>getNote\<close> returns is the
  identifier requested, or else it is a truthy identifier field of a JSON document parsed
  from a response of that call, read as the path of that response reads it: from the
  document shown in the browser, the note number of the envelope of the notes service or
  else \<open>SapNote\<close> or \<open>id\<close>; from the raw response, \<open>SapNote\<close>, \<open>id\<close> or
  \<open>noteId\<close>; from the response of a fallback endpoint, \<open>SapNote\<close>, \<open>Id\<close> or \<open>id\<close>
  of its entry \<open>d\<close>. When none of these fields is truthy in the responses of the call,
  the \<open>id\<close> is the identifier requested; and so it is in every record built from HTML
  (\<open>parseHtmlForNoteDetail\<close>), for a redirect page (\<open>redirectStub\<close>) or from the
  elements of the page (\<open>noteFromDom\<close>).
\<close>

theorem getNote_id:
  assumes "getNote B env noteId = Inr (Some note)"
  shows "(id_field note = JStr noteId \<or>
          (truthy (id_field note) \<and> id_field note \<in> set (responseIds B env noteId)))
       \<and> ((\<forall>v \<in> set (responseIds B env noteId). \<not> truthy v) \<longrightarrow>
            id_field note = JStr noteId)
       \<and> id_field (parseHtmlForNoteDetail B html noteId) = JStr noteId
       \<and> id_field (redirectStub noteId) = JStr noteId
       \<and> (\<forall>d. noteFromDom B page titleElement contentElement summaryElement noteId = Some d
              \<longrightarrow> id_field d = JStr noteId)"
  using getNote_idOrigin [OF assms] parseHtml_id [of B html noteId] redirectStub_id [of noteId]
    noteFromDom_id [of B page titleElement contentElement summaryElement noteId]
  by blast

text \<open>
  In the scenario \<open>noteShown\<close> the only identifier field of the responses is the note
  number 0002744792, and it is the \<open>id\<close> of the record. In the scenario
  \<open>allNotFound\<close> no response parses as JSON, and the \<open>id\<close> of the record is the
  2744792 that was requested.
\<close>

theorem getNote_id_witness:
  "getNote scenarioRuntime noteShown ''2744792'' = Inr (Some noteShownDetail)
   \<and> responseIds scenarioRuntime noteShown ''2744792'' = [JStr ''0002744792'']
   \<and> id_field noteShownDetail \<in> set (responseIds scenarioRuntime noteShown ''2744792'')
   \<and> getNote scenarioRuntime allNotFound ''2744792'' = Inr (Some notFoundDetail)
   \<and> responseIds scenarioRuntime allNotFound ''2744792'' = []
   \<and> id_field notFoundDetail = JStr ''2744792''"
proof -
  have ids: "responseIds scenarioRuntime noteShown ''2744792'' = [JStr ''0002744792'']"
    by code_simp
  have other: "id_field noteShownDetail \<noteq> JStr ''2744792''"
    by (simp add: noteShownDetail_def)
  have found: "getNote scenarioRuntime allNotFound ''2744792'' = Inr (Some notFoundDetail)"
    by code_simp
  have none: "responseIds scenarioRuntime allNotFound ''2744792'' = []"
    by code_simp
  from getNote_id [OF getNote_noteShown] other
  have a: "id_field noteShownDetail \<in> set (responseIds scenarioRuntime noteShown ''2744792'')"
    by blast
  from getNote_id [OF found] none
  have b: "id_field notFoundDetail = JStr ''2744792''"
    by simp
  from getNote_noteShown ids a found none b show ?thesis by blast
qed

text \<open>
  Claim C1 as stated fails: note 2744792 is requested, the response of the raw endpoint
  carries the note number 0002744792, and the record returned has that number as its
  \<open>id\<close>.
\<close>

theorem getNote_id_counterexample:
  "getNote scenarioRuntime noteShown ''2744792'' = Inr (Some noteShownDetail)
   \<and> id_field noteShownDetail = JStr ''0002744792''
   \<and> id_field noteShownDetail \<noteq> JStr ''2744792''"
proof -
  have "getNote scenarioRuntime noteShown ''2744792'' = Inr (Some noteShownDetail)"
    by code_simp
  then show ?thesis by (simp add: noteShownDetail_def)
qed

subsection \<open>Nothing found\<close>




subsection \<open>Search by identifier\<close>

lemma digit_not_space: "is_digit c \<Longrightarrow> \<not> is_space c"
  by (auto simp: is_digit_def is_space_def)

lemma trim_digits: "list_all is_digit s \<Longrightarrow> trim s = s"
proof -
  assume a: "list_all is_digit s"
  have d: "\<And>xs. list_all is_digit xs \<Longrightarrow> dropWhile is_space xs = xs"
    by (case_tac xs) (auto simp: digit_not_space)
  from a have "list_all is_digit (rev s)" by (simp add: list_all_iff)
  with a d show ?thesis by (simp add: trim_def)
qed

text \<open>
  Claim C8: for a query of 6 to 8 digits, when the primary search fails,
  \<open>searchNotes\<close> fetches the note of that identifier, and when the fetch gives a
  record it returns one result whose \<open>id\<close> is the query, with \<open>totalResults\<close> 1 and
  the query as \<open>query\<close>.
\<close>

theorem searchNotes_direct:
  assumes "6 \<le> length q" and "length q \<le> 8" and "list_all is_digit q"
    and "primarySearch env = Inl e"
    and "getNote B (noteEnv env) q = Inr (Some note)"
  shows "searchNotes B env q maxResults =
           Inr \<lparr>results = [\<lparr>id_field = JStr q, title = title note, summary = summary note,
                              language = language note, releaseDate = releaseDate note,
                              component = component note, url = url note\<rparr>],
                 totalResults = 1, query = q\<rparr>"
  using assms by (simp add: searchNotes_def trim_digits is_note_id_def)

theorem searchNotes_direct_witness:
  "searchNotes scenarioRuntime primaryDown ''2744792'' 10 =
     Inr \<lparr>results = [\<lparr>id_field = JStr ''2744792'', title = JStr ''Security update'',
                        summary = JStr ''SAP Knowledge Base Article'',
                        language = JStr ''EN'', releaseDate = JStr ''Unknown'',
                        component = Undefined,
                        url = ''https://launchpad.support.sap.com/#/notes/2744792''\<rparr>],
           totalResults = 1, query = ''2744792''\<rparr>"
proof -
  have h1: "6 \<le> length ''2744792''" by simp
  have h2: "length ''2744792'' \<le> 8" by simp
  have h3: "list_all is_digit ''2744792''" by (simp add: is_digit_def)
  have h4: "primarySearch primaryDown = Inl FetchFailed" by (simp add: primaryDown_def)
  have h5: "getNote scenarioRuntime (noteEnv primaryDown) ''2744792''
              = Inr (Some noteShownDetail)"
    using getNote_noteShown by (simp add: primaryDown_def)
  from searchNotes_direct [OF h1 h2 h3 h4 h5, of 10]
  show ?thesis by (simp add: noteShownDetail_def)
qed

subsection \<open>The severity vector read from the page\<close>











subsection \<open>Enhancement of a record\<close>

text \<open>
  Claim C9: when a record already has one of the two severity fields and
  \<open>enhanceWithCvssFromTab\<close> is called to fill the other, the field that is present is
  kept in the record returned.

  The code does not keep this. In the scenario \<open>scoreOnlyShown\<close> the response of the
  notes service carries the score 9.8 and no vector. The page shows the metric table,
  from which the vector is built, and no text from which a score is read. The
  enhancement writes both of its results into the record: the vector, and for the score
  \<open>undefined\<close> in place of 9.8. This record is what \<open>getNote\<close> returns.
\<close>

theorem enhanceWithCvssFromTab_drops_score:
  "cvssScore scoreOnlyDetail = JStr ''9.8''
   \<and> enhanceWithCvssFromTab scenarioRuntime scoreOnlyDetail (tablePage eightRows) ''2744792''
       = scoreOnlyDetail\<lparr>cvssScore := Undefined,
                         cvssVector := JStr ''CVSS:3.0/AV:N/AC:L/PR:N/UI:N/S:U/C:H/I:H/A:H''\<rparr>
   \<and> getNote scenarioRuntime scoreOnlyShown ''2744792''
       = Inr (Some (scoreOnlyDetail\<lparr>cvssScore := Undefined,
                         cvssVector := JStr ''CVSS:3.0/AV:N/AC:L/PR:N/UI:N/S:U/C:H/I:H/A:H''\<rparr>))"
  by code_simp

end
